theory Spec2Isabelle
  imports Main
begin

section \<open>Tensors and the library operations the transformer calls\<close>

text \<open>
  A tensor is its shape and its elements in row-major order, as the tensor library
  stores a contiguous tensor. The element type stays a parameter: the definitions
  below use \<open>+\<close>, \<open>*\<close> and \<open>0\<close> of the element type and no law of arithmetic, so
  nothing proved here rests on the elements being exact numbers.
\<close>

record 'a tensor =
  shape :: "nat list"
  data :: "'a list"

definition wf_tensor :: "'a tensor \<Rightarrow> bool" where
  "wf_tensor t \<longleftrightarrow> length (data t) = prod_list (shape t)"

text \<open>Exceptions are values: \<open>NameError\<close> carries its message.\<close>

datatype error = NameError string | RuntimeError string

text \<open>\<open>chop n d xs\<close>: the first \<open>n\<close> consecutive blocks of \<open>d\<close> elements of \<open>xs\<close>.\<close>

fun chop :: "nat \<Rightarrow> nat \<Rightarrow> 'a list \<Rightarrow> 'a list list" where
  "chop 0 d xs = []"
| "chop (Suc n) d xs = take d xs # chop n d (drop d xs)"

definition dot :: "'a::{zero,plus,times} list \<Rightarrow> 'a list \<Rightarrow> 'a" where
  "dot xs ws = foldl (+) 0 (map2 (*) xs ws)"

text \<open>
  \<open>linear_fn W b x\<close> is the affine map of \<open>nn.Linear\<close>, \<open>x W\<^sup>T + b\<close> on the last
  dimension of \<open>x\<close>, with weight of shape \<open>(out, in)\<close> and bias of shape \<open>(out)\<close>. A
  trailing dimension of \<open>x\<close> other than \<open>in\<close> raises.
\<close>

definition linear_fn ::
  "'a::{zero,plus,times} tensor \<Rightarrow> 'a tensor \<Rightarrow> 'a tensor \<Rightarrow> error + 'a tensor" where
  "linear_fn W b x =
     (case shape W of
        [out, inn] \<Rightarrow>
          if shape x \<noteq> [] \<and> last (shape x) = inn \<and> shape b = [out] then
            Inr \<lparr>shape = butlast (shape x) @ [out],
                 data = concat (map (\<lambda>r. map2 (\<lambda>w c. dot r w + c) (chop out inn (data W)) (data b))
                                    (chop (prod_list (butlast (shape x))) inn (data x)))\<rparr>
          else Inl (RuntimeError ''shapes cannot be multiplied'')
      | _ \<Rightarrow> Inl (RuntimeError ''shapes cannot be multiplied''))"

text \<open>
  Broadcasting of an in-place operation: the other operand's shape, aligned at the
  trailing dimension, must have in each dimension the size of the target or size 1,
  and no more dimensions than the target.
\<close>

definition broadcastable :: "nat list \<Rightarrow> nat list \<Rightarrow> bool" where
  "broadcastable s p \<longleftrightarrow>
     length p \<le> length s \<and>
     list_all2 (\<lambda>n q. q = n \<or> q = 1) (drop (length s - length p) s) p"

fun expand :: "nat list \<Rightarrow> nat list \<Rightarrow> 'a list \<Rightarrow> 'a list" where
  "expand (n # ns) (p # ps) xs =
     (if p = n then concat (map (expand ns ps) (chop n (prod_list ps) xs))
      else concat (replicate n (expand ns ps xs)))"
| "expand ns ps xs = xs"

definition add_bcast :: "'a::plus tensor \<Rightarrow> 'a tensor \<Rightarrow> error + 'a tensor" where
  "add_bcast t p =
     (if broadcastable (shape t) (shape p) then
        Inr (t\<lparr>data := map2 (+) (data t)
                 (expand (shape t) (replicate (length (shape t) - length (shape p)) 1 @ shape p)
                    (data p))\<rparr>)
      else Inl (RuntimeError ''shapes cannot be broadcast''))"

definition map_tensor :: "('a \<Rightarrow> 'a) \<Rightarrow> 'a tensor \<Rightarrow> 'a tensor" where
  "map_tensor f t = t\<lparr>data := map f (data t)\<rparr>"

section \<open>The store\<close>

text \<open>
  Tensors are objects: a variable of the program holds a reference. The store is the
  list of all tensor objects, a reference is an index into it. A library call that
  returns a new tensor allocates at the end of the store; the in-place addition
  (the method \<open>add_\<close>, here \<open>add_inplace\<close>) overwrites the object it is called on.
\<close>

type_synonym addr = nat
type_synonym 'a heap = "'a tensor list"

text \<open>
  A call ends with the store it leaves and the reference it returns, or with an
  exception; the store at the moment of the exception is kept, since nothing written
  before is undone.
\<close>

type_synonym 'a outcome = "(error \<times> 'a heap) + ('a heap \<times> addr)"

definition alloc :: "'a heap \<Rightarrow> 'a tensor \<Rightarrow> 'a heap \<times> addr" where
  "alloc h t = (h @ [t], length h)"

definition add_inplace ::
  "'a::plus heap \<Rightarrow> addr \<Rightarrow> addr \<Rightarrow> (error \<times> 'a heap) + 'a heap" where
  "add_inplace h self other =
     (case add_bcast (h ! self) (h ! other) of
        Inl e \<Rightarrow> Inl (e, h)
      | Inr t \<Rightarrow> Inr (h[self := t]))"

text \<open>An \<open>nn.Linear\<close> module holds its two parameters, tensors of the store.\<close>

record linear_module =
  weight :: addr
  bias :: addr

definition Linear_forward ::
  "linear_module \<Rightarrow> 'a::{zero,plus,times} heap \<Rightarrow> addr \<Rightarrow> 'a outcome" where
  "Linear_forward l h x =
     (case linear_fn (h ! weight l) (h ! bias l) (h ! x) of
        Inl e \<Rightarrow> Inl (e, h)
      | Inr t \<Rightarrow> Inr (alloc h t))"

definition torch_sigmoid :: "('a \<Rightarrow> 'a) \<Rightarrow> 'a heap \<Rightarrow> addr \<Rightarrow> 'a heap \<times> addr" where
  "torch_sigmoid sg h x = alloc h (map_tensor sg (h ! x))"

text \<open>
  Modelled from the spec: the classes \<open>Encoder\<close> and \<open>Decoder\<close>, which the source
  imports from \<open>tst.Encoder\<close> and \<open>tst.Decoder\<close>, are not among the source files.
  Section 4.3 of the specification gives their contract: an encoder layer is a function
  of the input tensor, a decoder layer a function of the decoding state and the encoder
  memory (with dropout deterministic, section 8). Their forward passes are the
  parameters \<open>enc_forward ops e\<close> and \<open>dec_forward ops d\<close> for a layer \<open>e\<close> or \<open>d\<close>;
  either may raise. The elementwise function behind \<open>torch.sigmoid\<close> is the parameter
  \<open>sigmoid\<close>.
\<close>

record ('a, 'e, 'f) ops =
  enc_forward :: "'e \<Rightarrow> 'a tensor \<Rightarrow> error + 'a tensor"
  dec_forward :: "'f \<Rightarrow> 'a tensor \<Rightarrow> 'a tensor \<Rightarrow> error + 'a tensor"
  sigmoid :: "'a \<Rightarrow> 'a"

text \<open>
  Modelled from the spec: the call \<open>layer(encoding)\<close> of an encoder layer. The
  activation it returns is a new tensor (section 3), and the call writes to no tensor
  that exists (sections 4.1 and 5: no side effect, parameters are read-only).
\<close>

definition call_encoder ::
  "('a, 'e, 'f) ops \<Rightarrow> 'e \<Rightarrow> 'a heap \<Rightarrow> addr \<Rightarrow> 'a outcome" where
  "call_encoder ops layer h x =
     (case enc_forward ops layer (h ! x) of
        Inl e \<Rightarrow> Inl (e, h)
      | Inr t \<Rightarrow> Inr (alloc h t))"

text \<open>
  Modelled from the spec: the call \<open>layer(decoding, encoding)\<close> of a decoder layer, on
  the same terms.
\<close>

definition call_decoder ::
  "('a, 'e, 'f) ops \<Rightarrow> 'f \<Rightarrow> 'a heap \<Rightarrow> addr \<Rightarrow> addr \<Rightarrow> 'a outcome" where
  "call_decoder ops layer h x memory =
     (case dec_forward ops layer (h ! x) (h ! memory) of
        Inl e \<Rightarrow> Inl (e, h)
      | Inr t \<Rightarrow> Inr (alloc h t))"

section \<open>The transformer\<close>

text \<open>
  The attributes of a \<open>Transformer\<close> object. \<open>PE\<close> is the attribute \<open>_PE\<close>: the
  reference to the positional-encoding table, or \<open>None\<close>. \<open>embedding\<close> and \<open>linear\<close>
  are \<open>_embedding\<close> and \<open>_linear\<close>.
\<close>

record ('e, 'f) transformer =
  layers_encoding :: "'e list"
  layers_decoding :: "'f list"
  embedding :: linear_module
  linear :: linear_module
  PE :: "addr option"

subsection \<open>forward\<close>

text \<open>The loop \<open>for layer in self.layers_encoding: encoding = layer(encoding)\<close>.\<close>

fun encoding_stack ::
  "('a, 'e, 'f) ops \<Rightarrow> 'e list \<Rightarrow> 'a heap \<Rightarrow> addr \<Rightarrow> 'a outcome" where
  "encoding_stack ops [] h encoding = Inr (h, encoding)"
| "encoding_stack ops (layer # layers) h encoding =
     (case call_encoder ops layer h encoding of
        Inl e \<Rightarrow> Inl e
      | Inr (h', encoding') \<Rightarrow> encoding_stack ops layers h' encoding')"

text \<open>
  The loop \<open>for layer in self.layers_decoding: decoding = layer(decoding, encoding)\<close>:
  \<open>decoding\<close> is rebound in each turn, \<open>encoding\<close> is not.
\<close>

fun decoding_stack ::
  "('a, 'e, 'f) ops \<Rightarrow> 'f list \<Rightarrow> 'a heap \<Rightarrow> addr \<Rightarrow> addr \<Rightarrow> 'a outcome" where
  "decoding_stack ops [] h decoding encoding = Inr (h, decoding)"
| "decoding_stack ops (layer # layers) h decoding encoding =
     (case call_decoder ops layer h decoding encoding of
        Inl e \<Rightarrow> Inl e
      | Inr (h', decoding') \<Rightarrow> decoding_stack ops layers h' decoding' encoding)"

text \<open>The statement \<open>if self._PE is not None: encoding.add_(self._PE)\<close>.\<close>

definition add_PE ::
  "('e, 'f) transformer \<Rightarrow> 'a::plus heap \<Rightarrow> addr \<Rightarrow> (error \<times> 'a heap) + 'a heap" where
  "add_PE self h encoding =
     (case PE self of
        Some pe \<Rightarrow> add_inplace h encoding pe
      | None \<Rightarrow> Inr h)"

text \<open>
  \<open>forward ops self h x\<close> runs the method on the store \<open>h\<close> with the input at \<open>x\<close>.
  The names \<open>encoding\<close> and \<open>encoding'\<close> are the variable \<open>encoding\<close> before and after
  the encoder loop rebinds it; \<open>decoding = encoding\<close> binds a second name to the same
  object, so the decoder loop starts with both references equal.
\<close>

definition forward ::
  "('a::{zero,plus,times}, 'e, 'f) ops \<Rightarrow> ('e, 'f) transformer \<Rightarrow> 'a heap \<Rightarrow> addr \<Rightarrow>
     'a outcome" where
  "forward ops self h x =
     (case Linear_forward (embedding self) h x of
        Inl e \<Rightarrow> Inl e
      | Inr (h1, encoding) \<Rightarrow>
     (case add_PE self h1 encoding of
        Inl e \<Rightarrow> Inl e
      | Inr h2 \<Rightarrow>
     (case encoding_stack ops (layers_encoding self) h2 encoding of
        Inl e \<Rightarrow> Inl e
      | Inr (h3, encoding') \<Rightarrow>
     (case add_PE self h3 encoding' of
        Inl e \<Rightarrow> Inl e
      | Inr h4 \<Rightarrow>
     (case decoding_stack ops (layers_decoding self) h4 encoding' encoding' of
        Inl e \<Rightarrow> Inl e
      | Inr (h5, decoding) \<Rightarrow>
     (case Linear_forward (linear self) h5 decoding of
        Inl e \<Rightarrow> Inl e
      | Inr (h6, output) \<Rightarrow> Inr (torch_sigmoid (sigmoid ops) h6 output)))))))"

text \<open>What the caller gets back, and the store the call leaves.\<close>

definition returned :: "'a outcome \<Rightarrow> error + 'a tensor" where
  "returned r = (case r of Inl (e, h) \<Rightarrow> Inl e | Inr (h, out) \<Rightarrow> Inr (h ! out))"

definition store_after :: "'a outcome \<Rightarrow> 'a heap" where
  "store_after r = (case r of Inl (e, h) \<Rightarrow> h | Inr (h, out) \<Rightarrow> h)"

text \<open>
  The references a call of \<open>forward\<close> is given: the input and the parameters of the
  object are tensors of the store.
\<close>

definition refs_ok :: "('e, 'f) transformer \<Rightarrow> 'a heap \<Rightarrow> addr \<Rightarrow> bool" where
  "refs_ok self h x \<longleftrightarrow>
     x < length h \<and>
     weight (embedding self) < length h \<and> bias (embedding self) < length h \<and>
     weight (linear self) < length h \<and> bias (linear self) < length h \<and>
     (case PE self of Some pe \<Rightarrow> pe < length h | None \<Rightarrow> True)"

subsection \<open>Construction\<close>

text \<open>
  What \<open>__init__\<close> calls and the source does not define: the constructors of \<open>Encoder\<close>,
  \<open>Decoder\<close> and \<open>nn.Linear\<close>, and the two generators of positional encodings. They
  are parameters. Each runs on the state of the world \<open>'w\<close> (the store, the random
  number generator that initialises parameters), returns its result with the new state,
  or raises. A generator returns the reference to the table it made. The types \<open>'d\<close>
  and \<open>'c\<close> of \<open>dropout\<close> and \<open>chunk_mode\<close> are those of whatever the caller passes.
\<close>

record ('d, 'c, 'w, 'e, 'f) lib =
  Encoder :: "int \<Rightarrow> int \<Rightarrow> int \<Rightarrow> int \<Rightarrow> int \<Rightarrow> 'd \<Rightarrow> 'c \<Rightarrow> 'w \<Rightarrow> error + ('e \<times> 'w)"
  Decoder :: "int \<Rightarrow> int \<Rightarrow> int \<Rightarrow> int \<Rightarrow> int \<Rightarrow> 'd \<Rightarrow> 'c \<Rightarrow> 'w \<Rightarrow> error + ('f \<times> 'w)"
  Linear :: "int \<Rightarrow> int \<Rightarrow> 'w \<Rightarrow> error + (linear_module \<times> 'w)"
  generate_original_PE :: "int \<Rightarrow> int \<Rightarrow> 'w \<Rightarrow> error + (addr \<times> 'w)"
  generate_regular_PE :: "int \<Rightarrow> int \<Rightarrow> 'w \<Rightarrow> error + (addr \<times> 'w)"

text \<open>
  The comprehension \<open>[C(...) for _ in range(N)]\<close>: \<open>n\<close> calls of the constructor, one
  after the other, each on the state the one before left.
\<close>

fun build :: "('w \<Rightarrow> error + ('x \<times> 'w)) \<Rightarrow> nat \<Rightarrow> 'w \<Rightarrow> error + ('x list \<times> 'w)" where
  "build ctor 0 w = Inr ([], w)"
| "build ctor (Suc n) w =
     (case ctor w of
        Inl e \<Rightarrow> Inl e
      | Inr (x, w') \<Rightarrow>
          (case build ctor n w' of
             Inl e \<Rightarrow> Inl e
           | Inr (xs, w'') \<Rightarrow> Inr (x # xs, w'')))"

text \<open>The dictionary \<open>pe_functions\<close>, in the order it is written.\<close>

definition pe_functions ::
  "('d, 'c, 'w, 'e, 'f) lib \<Rightarrow> (string \<times> (int \<Rightarrow> int \<Rightarrow> 'w \<Rightarrow> error + (addr \<times> 'w))) list" where
  "pe_functions l = [(''original'', generate_original_PE l), (''regular'', generate_regular_PE l)]"

fun join :: "string \<Rightarrow> string list \<Rightarrow> string" where
  "join sep [] = []"
| "join sep [x] = x"
| "join sep (x # y # ys) = x @ sep @ join sep (y # ys)"

text \<open>The message of the \<open>NameError\<close>, an f-string over \<open>pe\<close> and the keys.\<close>

definition pe_message :: "string \<Rightarrow> string list \<Rightarrow> string" where
  "pe_message pe keys =
     ''PE '' @ [CHR 0x22] @ pe @ [CHR 0x22] @ '' not understood. Must be one of '' @
     join '', '' keys @ '' or None.''"

text \<open>
  \<open>Transformer_init\<close> is \<open>Transformer.__init__\<close>. \<open>range(N)\<close> is empty for \<open>N \<le> 0\<close>,
  hence \<open>nat N\<close> calls. The test \<open>pe in pe_functions.keys()\<close> holds when \<open>pe\<close> is a string
  and a key, the test \<open>pe is None\<close> when it is \<open>None\<close>; every other \<open>pe\<close> is a string
  that is no key. \<open>nn.Parameter\<close> wraps the table it is given: the attribute refers to
  that tensor.
\<close>

definition Transformer_init ::
  "('d, 'c, 'w, 'e, 'f) lib \<Rightarrow> int \<Rightarrow> int \<Rightarrow> int \<Rightarrow> int \<Rightarrow> int \<Rightarrow> int \<Rightarrow> int \<Rightarrow> int \<Rightarrow>
     'd \<Rightarrow> 'c \<Rightarrow> string option \<Rightarrow> 'w \<Rightarrow> error + (('e, 'f) transformer \<times> 'w)" where
  "Transformer_init l d_input d_model d_output q v h k N dropout chunk_mode pe w =
     (case build (Encoder l d_model q v h k dropout chunk_mode) (nat N) w of
        Inl e \<Rightarrow> Inl e
      | Inr (encoders, w1) \<Rightarrow>
     (case build (Decoder l d_model q v h k dropout chunk_mode) (nat N) w1 of
        Inl e \<Rightarrow> Inl e
      | Inr (decoders, w2) \<Rightarrow>
     (case Linear l d_input d_model w2 of
        Inl e \<Rightarrow> Inl e
      | Inr (emb, w3) \<Rightarrow>
     (case Linear l d_model d_output w3 of
        Inl e \<Rightarrow> Inl e
      | Inr (lin, w4) \<Rightarrow>
     (case pe of
        Some name \<Rightarrow>
          (case map_of (pe_functions l) name of
             Some generate \<Rightarrow>
               (case generate k d_model w4 of
                  Inl e \<Rightarrow> Inl e
                | Inr (table, w5) \<Rightarrow>
                    Inr (\<lparr>layers_encoding = encoders, layers_decoding = decoders,
                          embedding = emb, linear = lin, PE = Some table\<rparr>, w5))
           | None \<Rightarrow> Inl (NameError (pe_message name (map fst (pe_functions l)))))
      | None \<Rightarrow>
          Inr (\<lparr>layers_encoding = encoders, layers_decoding = decoders,
                embedding = emb, linear = lin, PE = None\<rparr>, w4))))))"

text \<open>
  The values Python can pass for \<open>dropout\<close> and \<open>chunk_mode\<close>. A float literal is kept
  as the decimal it is written as: \<open>PyFloat m e\<close> is \<open>m\<close> times ten to the power \<open>e\<close>.
\<close>

datatype pyval = PyNone | PyBool bool | PyInt int | PyFloat int int | PyStr string

text \<open>The defaults of the signature: \<open>dropout = 0.3\<close>, \<open>chunk_mode = True\<close>, \<open>pe = None\<close>.\<close>

definition dropout_default :: pyval where
  "dropout_default = PyFloat 3 (- 1)"

definition chunk_mode_default :: pyval where
  "chunk_mode_default = PyBool True"

definition pe_default :: "string option" where
  "pe_default = None"

text \<open>A call that passes the eight required arguments only.\<close>

definition Transformer_init_defaults ::
  "(pyval, pyval, 'w, 'e, 'f) lib \<Rightarrow> int \<Rightarrow> int \<Rightarrow> int \<Rightarrow> int \<Rightarrow> int \<Rightarrow> int \<Rightarrow> int \<Rightarrow> int \<Rightarrow>
     'w \<Rightarrow> error + (('e, 'f) transformer \<times> 'w)" where
  "Transformer_init_defaults l d_input d_model d_output q v h k N w =
     Transformer_init l d_input d_model d_output q v h k N
       dropout_default chunk_mode_default pe_default w"

section \<open>The specification\<close>

text \<open>
  The definitions of this section follow the words of the specification, on tensor
  values, with no store: they are what \<open>forward\<close> is compared with.
\<close>

definition and_then :: "error + 'a \<Rightarrow> ('a \<Rightarrow> error + 'b) \<Rightarrow> error + 'b" where
  "and_then r f = (case r of Inl e \<Rightarrow> Inl e | Inr v \<Rightarrow> f v)"

text \<open>Encoder layers 1..N applied one after the other.\<close>

fun encoder_layers :: "('a, 'e, 'f) ops \<Rightarrow> 'e list \<Rightarrow> 'a tensor \<Rightarrow> error + 'a tensor" where
  "encoder_layers ops [] t = Inr t"
| "encoder_layers ops (l # ls) t = and_then (enc_forward ops l t) (encoder_layers ops ls)"

text \<open>\<open>D\<^sub>i = decoderLayer\<^sub>i (D\<^sub>i\<^sub>-\<^sub>1, M)\<close>: every layer is given the same \<open>M\<close>.\<close>

fun decoder_layers ::
  "('a, 'e, 'f) ops \<Rightarrow> 'f list \<Rightarrow> 'a tensor \<Rightarrow> 'a tensor \<Rightarrow> error + 'a tensor" where
  "decoder_layers ops [] D M = Inr D"
| "decoder_layers ops (l # ls) D M =
     and_then (dec_forward ops l D M) (\<lambda>D'. decoder_layers ops ls D' M)"

text \<open>The table added elementwise, broadcast over the batch, if there is a table.\<close>

definition plus_table :: "'a::plus tensor option \<Rightarrow> 'a tensor \<Rightarrow> error + 'a tensor" where
  "plus_table table t = (case table of Some T \<Rightarrow> add_bcast t T | None \<Rightarrow> Inr t)"

text \<open>
  The composition of claim C1, from the embedding's weight and bias \<open>W1\<close>, \<open>b1\<close>, the
  layers, the output projection's \<open>W2\<close>, \<open>b2\<close>, and the table.
\<close>

definition composition ::
  "('a::{zero,plus,times}, 'e, 'f) ops \<Rightarrow> 'a tensor \<Rightarrow> 'a tensor \<Rightarrow> 'e list \<Rightarrow> 'f list \<Rightarrow>
     'a tensor \<Rightarrow> 'a tensor \<Rightarrow> 'a tensor option \<Rightarrow> 'a tensor \<Rightarrow> error + 'a tensor" where
  "composition ops W1 b1 encs decs W2 b2 table x =
     and_then (linear_fn W1 b1 x) (\<lambda>E0.
     and_then (plus_table table E0) (\<lambda>E0'.
     and_then (encoder_layers ops encs E0') (\<lambda>M0.
     and_then (plus_table table M0) (\<lambda>M.
     and_then (decoder_layers ops decs M M) (\<lambda>D.
     and_then (linear_fn W2 b2 D) (\<lambda>out.
     Inr (map_tensor (sigmoid ops) out)))))))"

text \<open>The composition on the parameters an object has in a store.\<close>

definition forward_value ::
  "('a::{zero,plus,times}, 'e, 'f) ops \<Rightarrow> ('e, 'f) transformer \<Rightarrow> 'a heap \<Rightarrow> 'a tensor \<Rightarrow>
     error + 'a tensor" where
  "forward_value ops self h x =
     composition ops (h ! weight (embedding self)) (h ! bias (embedding self))
       (layers_encoding self) (layers_decoding self)
       (h ! weight (linear self)) (h ! bias (linear self))
       (map_option ((!) h) (PE self)) x"

text \<open>The pipeline with both addition steps removed (claim C6).\<close>

definition pipeline_without_PE ::
  "('a::{zero,plus,times}, 'e, 'f) ops \<Rightarrow> 'a tensor \<Rightarrow> 'a tensor \<Rightarrow> 'e list \<Rightarrow> 'f list \<Rightarrow>
     'a tensor \<Rightarrow> 'a tensor \<Rightarrow> 'a tensor \<Rightarrow> error + 'a tensor" where
  "pipeline_without_PE ops W1 b1 encs decs W2 b2 x =
     and_then (linear_fn W1 b1 x) (\<lambda>E0.
     and_then (encoder_layers ops encs E0) (\<lambda>M.
     and_then (decoder_layers ops decs M M) (\<lambda>D.
     and_then (linear_fn W2 b2 D) (\<lambda>out.
     Inr (map_tensor (sigmoid ops) out)))))"

text \<open>
  The model with no layer (claim C9): the output projection and the sigmoid of the
  embedding, with the table added twice when there is one.
\<close>

definition no_layers ::
  "('a::{zero,plus,times}, 'e, 'f) ops \<Rightarrow> 'a tensor \<Rightarrow> 'a tensor \<Rightarrow>
     'a tensor \<Rightarrow> 'a tensor \<Rightarrow> 'a tensor option \<Rightarrow> 'a tensor \<Rightarrow> error + 'a tensor" where
  "no_layers ops W1 b1 W2 b2 table x =
     (case table of
        Some T \<Rightarrow>
          and_then (linear_fn W1 b1 x) (\<lambda>E.
          and_then (add_bcast E T) (\<lambda>E1.
          and_then (add_bcast E1 T) (\<lambda>E2.
          and_then (linear_fn W2 b2 E2) (\<lambda>out.
          Inr (map_tensor (sigmoid ops) out)))))
      | None \<Rightarrow>
          and_then (linear_fn W1 b1 x) (\<lambda>E.
          and_then (linear_fn W2 b2 E) (\<lambda>out.
          Inr (map_tensor (sigmoid ops) out))))"

text \<open>A tensor of a given shape; the contracts of the layers (section 4.3).\<close>

definition has_shape :: "nat list \<Rightarrow> 'a tensor \<Rightarrow> bool" where
  "has_shape s t \<longleftrightarrow> shape t = s \<and> wf_tensor t"

definition encoder_contract :: "('a, 'e, 'f) ops \<Rightarrow> nat list \<Rightarrow> 'e \<Rightarrow> bool" where
  "encoder_contract ops s l \<longleftrightarrow>
     (\<forall>t. has_shape s t \<longrightarrow> (\<exists>t'. enc_forward ops l t = Inr t' \<and> has_shape s t'))"

definition decoder_contract :: "('a, 'e, 'f) ops \<Rightarrow> nat list \<Rightarrow> 'f \<Rightarrow> bool" where
  "decoder_contract ops s l \<longleftrightarrow>
     (\<forall>t m. has_shape s t \<and> has_shape s m \<longrightarrow>
        (\<exists>t'. dec_forward ops l t m = Inr t' \<and> has_shape s t'))"

text \<open>
  A valid configuration in a store: the parameters have the shapes \<open>nn.Linear(d_input,
  d_model)\<close> and \<open>nn.Linear(d_model, d_output)\<close> give them, the table, if any, the shape
  \<open>(k, d_model)\<close> of the generators' contract, and the layers keep their contracts.
\<close>

definition configured ::
  "('a, 'e, 'f) ops \<Rightarrow> ('e, 'f) transformer \<Rightarrow> 'a heap \<Rightarrow> nat \<Rightarrow> nat \<Rightarrow> nat \<Rightarrow> nat \<Rightarrow> nat \<Rightarrow>
     bool" where
  "configured ops self h batch_size k d_input d_model d_output \<longleftrightarrow>
     has_shape [d_model, d_input] (h ! weight (embedding self)) \<and>
     has_shape [d_model] (h ! bias (embedding self)) \<and>
     has_shape [d_output, d_model] (h ! weight (linear self)) \<and>
     has_shape [d_output] (h ! bias (linear self)) \<and>
     (case PE self of Some pe \<Rightarrow> has_shape [k, d_model] (h ! pe) | None \<Rightarrow> True) \<and>
     list_all (encoder_contract ops [batch_size, k, d_model]) (layers_encoding self) \<and>
     list_all (decoder_contract ops [batch_size, k, d_model]) (layers_decoding self)"

text \<open>The constructors and generators that \<open>__init__\<close> calls return, whatever the state.\<close>

definition returns :: "('w \<Rightarrow> error + ('x \<times> 'w)) \<Rightarrow> bool" where
  "returns f \<longleftrightarrow> (\<forall>w. \<exists>x w'. f w = Inr (x, w'))"

definition layers_constructible ::
  "('d, 'c, 'w, 'e, 'f) lib \<Rightarrow> int \<Rightarrow> int \<Rightarrow> int \<Rightarrow> int \<Rightarrow> int \<Rightarrow> 'd \<Rightarrow> 'c \<Rightarrow> bool" where
  "layers_constructible l d_model q v h k dropout chunk_mode \<longleftrightarrow>
     returns (Encoder l d_model q v h k dropout chunk_mode) \<and>
     returns (Decoder l d_model q v h k dropout chunk_mode)"

definition modules_constructible ::
  "('d, 'c, 'w, 'e, 'f) lib \<Rightarrow> int \<Rightarrow> int \<Rightarrow> int \<Rightarrow> int \<Rightarrow> bool" where
  "modules_constructible l d_input d_model d_output k \<longleftrightarrow>
     returns (Linear l d_input d_model) \<and> returns (Linear l d_model d_output) \<and>
     returns (generate_original_PE l k d_model) \<and> returns (generate_regular_PE l k d_model)"

text \<open>
  Two objects in two stores with the same parameters: the same layers, and parameter
  tensors and table of equal value.
\<close>

definition same_parameters ::
  "('e, 'f) transformer \<Rightarrow> 'a heap \<Rightarrow> ('e, 'f) transformer \<Rightarrow> 'a heap \<Rightarrow> bool" where
  "same_parameters self h self' h' \<longleftrightarrow>
     layers_encoding self' = layers_encoding self \<and>
     layers_decoding self' = layers_decoding self \<and>
     h' ! weight (embedding self') = h ! weight (embedding self) \<and>
     h' ! bias (embedding self') = h ! bias (embedding self) \<and>
     h' ! weight (linear self') = h ! weight (linear self) \<and>
     h' ! bias (linear self') = h ! bias (linear self) \<and>
     map_option ((!) h') (PE self') = map_option ((!) h) (PE self)"

section \<open>A concrete model\<close>

text \<open>
  An instance to run the definitions on, over the integers. An encoder layer adds its
  parameter to every element, a decoder layer multiplies the state by its parameter and
  adds the memory, the squashing function is the remainder modulo 7.
\<close>

definition ops0 :: "(int, int, int) ops" where
  "ops0 = \<lparr>enc_forward = (\<lambda>e t. Inr (map_tensor (\<lambda>v. v + e) t)),
           dec_forward = (\<lambda>d t m. Inr (t\<lparr>data := map2 (\<lambda>a b. a * d + b) (data t) (data m)\<rparr>)),
           sigmoid = (\<lambda>v. v mod 7)\<rparr>"

text \<open>
  The store: the embedding's weight \<open>(2, 3)\<close> and bias at 0 and 1, the output
  projection's weight \<open>(1, 2)\<close> and bias at 2 and 3, a table \<open>(2, 2)\<close> at 4, an input of
  shape \<open>(1, 2, 3)\<close> at 5.
\<close>

definition h0 :: "int heap" where
  "h0 = [\<lparr>shape = [2, 3], data = [1, 2, 3, 4, 5, 6]\<rparr>, \<lparr>shape = [2], data = [10, 20]\<rparr>,
         \<lparr>shape = [1, 2], data = [1, - 1]\<rparr>, \<lparr>shape = [1], data = [5]\<rparr>,
         \<lparr>shape = [2, 2], data = [100, 200, 300, 400]\<rparr>,
         \<lparr>shape = [1, 2, 3], data = [1, 0, 0, 0, 1, 1]\<rparr>]"

definition m0 :: "(int, int) transformer" where
  "m0 = \<lparr>layers_encoding = [1, 2], layers_decoding = [3, 4],
          embedding = \<lparr>weight = 0, bias = 1\<rparr>, linear = \<lparr>weight = 2, bias = 3\<rparr>,
          PE = Some 4\<rparr>"

text \<open>
  Constructors to run \<open>__init__\<close> with. The state is the next free reference and a
  counter from which layers draw their parameter. \<open>Linear\<close> raises on a negative
  dimension, the layers on a boolean \<open>chunk_mode\<close>.
\<close>

definition lib0 :: "(pyval, pyval, nat \<times> int, int, int) lib" where
  "lib0 = \<lparr>Encoder = (\<lambda>d_model q v h k dropout chunk_mode (a, r).
                       case chunk_mode of
                         PyBool b \<Rightarrow> Inl (NameError ''chunk_mode not understood'')
                       | _ \<Rightarrow> Inr (r, (a, r + 1))),
           Decoder = (\<lambda>d_model q v h k dropout chunk_mode (a, r).
                       case chunk_mode of
                         PyBool b \<Rightarrow> Inl (NameError ''chunk_mode not understood'')
                       | _ \<Rightarrow> Inr (r, (a, r + 1))),
           Linear = (\<lambda>d_in d_out (a, r).
                       if d_in < 0 \<or> d_out < 0 then Inl (RuntimeError ''negative dimension'')
                       else Inr (\<lparr>weight = a, bias = a + 1\<rparr>, (a + 2, r))),
           generate_original_PE = (\<lambda>k d_model (a, r). Inr (a, (a + 1, r))),
           generate_regular_PE = (\<lambda>k d_model (a, r). Inr (a, (a + 1, r)))\<rparr>"

text \<open>
  The objects \<open>__init__\<close> makes with these constructors from the state \<open>(0, 1)\<close>:
  \<open>m1\<close> with \<open>N = 2\<close> and no table, \<open>m2\<close> with \<open>N = 0\<close> and a table.
\<close>

definition m1 :: "(int, int) transformer" where
  "m1 = \<lparr>layers_encoding = [1, 2], layers_decoding = [3, 4],
          embedding = \<lparr>weight = 0, bias = 1\<rparr>, linear = \<lparr>weight = 2, bias = 3\<rparr>,
          PE = None\<rparr>"

definition m2 :: "(int, int) transformer" where
  "m2 = \<lparr>layers_encoding = [], layers_decoding = [],
          embedding = \<lparr>weight = 0, bias = 1\<rparr>, linear = \<lparr>weight = 2, bias = 3\<rparr>,
          PE = Some 4\<rparr>"

section \<open>The store during forward\<close>

text \<open>
  Each step of \<open>forward\<close> either allocates or overwrites a tensor the call itself
  allocated, and computes on values what the specification's functions compute.
\<close>

lemma encoding_stack_Inl:
  "encoding_stack ops ls g a = Inl (e, g') \<Longrightarrow> a < length g \<Longrightarrow>
     (\<exists>zs. g' = g @ zs) \<and> encoder_layers ops ls (g ! a) = Inl e"
proof (induction ls arbitrary: g a)
  case Nil
  then show ?case by simp
next
  case (Cons l ls)
  show ?case
  proof (cases "enc_forward ops l (g ! a)")
    case (Inl e')
    with Cons.prems show ?thesis by (simp add: call_encoder_def and_then_def)
  next
    case (Inr t)
    with Cons.prems have "encoding_stack ops ls (g @ [t]) (length g) = Inl (e, g')"
      by (simp add: call_encoder_def alloc_def)
    then have "(\<exists>zs. g' = (g @ [t]) @ zs) \<and> encoder_layers ops ls ((g @ [t]) ! length g) = Inl e"
      by (rule Cons.IH) simp
    with Inr show ?thesis by (auto simp: and_then_def)
  qed
qed

lemma encoding_stack_Inr:
  "encoding_stack ops ls g a = Inr (g', a') \<Longrightarrow> a < length g \<Longrightarrow>
     (\<exists>zs. g' = g @ zs) \<and> a' < length g' \<and> (a' = a \<or> length g \<le> a') \<and>
     encoder_layers ops ls (g ! a) = Inr (g' ! a')"
proof (induction ls arbitrary: g a)
  case Nil
  then show ?case by simp
next
  case (Cons l ls)
  show ?case
  proof (cases "enc_forward ops l (g ! a)")
    case (Inl e')
    with Cons.prems show ?thesis by (simp add: call_encoder_def)
  next
    case (Inr t)
    with Cons.prems have run: "encoding_stack ops ls (g @ [t]) (length g) = Inr (g', a')"
      by (simp add: call_encoder_def alloc_def)
    have "(\<exists>zs. g' = (g @ [t]) @ zs) \<and> a' < length g' \<and> (a' = length g \<or> length (g @ [t]) \<le> a') \<and>
          encoder_layers ops ls ((g @ [t]) ! length g) = Inr (g' ! a')"
      by (rule Cons.IH [OF run]) simp
    with Inr show ?thesis by (auto simp: and_then_def)
  qed
qed

lemma decoding_stack_Inl:
  "decoding_stack ops ls g d m = Inl (e, g') \<Longrightarrow> d < length g \<Longrightarrow> m < length g \<Longrightarrow>
     (\<exists>zs. g' = g @ zs) \<and> decoder_layers ops ls (g ! d) (g ! m) = Inl e"
proof (induction ls arbitrary: g d)
  case Nil
  then show ?case by simp
next
  case (Cons l ls)
  show ?case
  proof (cases "dec_forward ops l (g ! d) (g ! m)")
    case (Inl e')
    with Cons.prems show ?thesis by (simp add: call_decoder_def and_then_def)
  next
    case (Inr t)
    with Cons.prems have "decoding_stack ops ls (g @ [t]) (length g) m = Inl (e, g')"
      by (simp add: call_decoder_def alloc_def)
    then have "(\<exists>zs. g' = (g @ [t]) @ zs) \<and>
               decoder_layers ops ls ((g @ [t]) ! length g) ((g @ [t]) ! m) = Inl e"
      using Cons.prems by (intro Cons.IH) simp_all
    with Inr Cons.prems show ?thesis by (auto simp: and_then_def nth_append)
  qed
qed

lemma decoding_stack_Inr:
  "decoding_stack ops ls g d m = Inr (g', d') \<Longrightarrow> d < length g \<Longrightarrow> m < length g \<Longrightarrow>
     (\<exists>zs. g' = g @ zs) \<and> d' < length g' \<and> (d' = d \<or> length g \<le> d') \<and>
     decoder_layers ops ls (g ! d) (g ! m) = Inr (g' ! d')"
proof (induction ls arbitrary: g d)
  case Nil
  then show ?case by simp
next
  case (Cons l ls)
  show ?case
  proof (cases "dec_forward ops l (g ! d) (g ! m)")
    case (Inl e')
    with Cons.prems show ?thesis by (simp add: call_decoder_def)
  next
    case (Inr t)
    with Cons.prems have run: "decoding_stack ops ls (g @ [t]) (length g) m = Inr (g', d')"
      by (simp add: call_decoder_def alloc_def)
    have "(\<exists>zs. g' = (g @ [t]) @ zs) \<and> d' < length g' \<and> (d' = length g \<or> length (g @ [t]) \<le> d') \<and>
          decoder_layers ops ls ((g @ [t]) ! length g) ((g @ [t]) ! m) = Inr (g' ! d')"
      using Cons.prems by (intro Cons.IH [OF run]) simp_all
    with Inr Cons.prems show ?thesis by (auto simp: and_then_def nth_append)
  qed
qed

lemma add_PE_Inl:
  "add_PE self (h @ ys) a = Inl (e, g) \<Longrightarrow>
     (case PE self of Some pe \<Rightarrow> pe < length h | None \<Rightarrow> True) \<Longrightarrow>
     g = h @ ys \<and> plus_table (map_option ((!) h) (PE self)) ((h @ ys) ! a) = Inl e"
  by (auto simp: add_PE_def add_inplace_def plus_table_def nth_append
      split: option.splits sum.splits)

lemma add_PE_Inr:
  "add_PE self (h @ ys) a = Inr g \<Longrightarrow> length h \<le> a \<Longrightarrow> a < length (h @ ys) \<Longrightarrow>
     (case PE self of Some pe \<Rightarrow> pe < length h | None \<Rightarrow> True) \<Longrightarrow>
     (\<exists>zs. g = h @ zs) \<and> length g = length (h @ ys) \<and>
     plus_table (map_option ((!) h) (PE self)) ((h @ ys) ! a) = Inr (g ! a)"
  by (auto simp: add_PE_def add_inplace_def plus_table_def nth_append list_update_append
      split: option.splits sum.splits)

lemma Linear_forward_Inl:
  "Linear_forward l (h @ ys) a = Inl (e, g) \<Longrightarrow> weight l < length h \<Longrightarrow> bias l < length h \<Longrightarrow>
     g = h @ ys \<and> linear_fn (h ! weight l) (h ! bias l) ((h @ ys) ! a) = Inl e"
  by (auto simp: Linear_forward_def nth_append split: sum.splits)

lemma Linear_forward_Inr:
  "Linear_forward l (h @ ys) a = Inr (g, b) \<Longrightarrow> weight l < length h \<Longrightarrow> bias l < length h \<Longrightarrow>
     (\<exists>zs. g = h @ zs) \<and> b = length (h @ ys) \<and> b < length g \<and>
     linear_fn (h ! weight l) (h ! bias l) ((h @ ys) ! a) = Inr (g ! b)"
  by (auto simp: Linear_forward_def alloc_def nth_append split: sum.splits)

lemma forward_Inr:
  assumes run: "forward ops self h x = Inr (h', out)" and refs: "refs_ok self h x"
  shows "(\<exists>ys. h' = h @ ys) \<and> length h \<le> out \<and> out < length h' \<and>
         forward_value ops self h (h ! x) = Inr (h' ! out)"
proof -
  from refs have x: "x < length h"
    and emb: "weight (embedding self) < length h" "bias (embedding self) < length h"
    and lin: "weight (linear self) < length h" "bias (linear self) < length h"
    and pe: "case PE self of Some pe \<Rightarrow> pe < length h | None \<Rightarrow> True"
    by (simp_all add: refs_ok_def)
  from run obtain h1 a1 h2 h3 a3 h4 h5 a5 h6 a6 where
    s1: "Linear_forward (embedding self) h x = Inr (h1, a1)" and
    s2: "add_PE self h1 a1 = Inr h2" and
    s3: "encoding_stack ops (layers_encoding self) h2 a1 = Inr (h3, a3)" and
    s4: "add_PE self h3 a3 = Inr h4" and
    s5: "decoding_stack ops (layers_decoding self) h4 a3 a3 = Inr (h5, a5)" and
    s6: "Linear_forward (linear self) h5 a5 = Inr (h6, a6)" and
    s7: "torch_sigmoid (sigmoid ops) h6 a6 = (h', out)"
    by (auto simp: forward_def split: sum.splits prod.splits)
  from Linear_forward_Inr [of "embedding self" h "[]" x h1 a1] s1 emb
  obtain y1 where h1: "h1 = h @ y1" and a1: "a1 = length h" "a1 < length h1"
    and v1: "linear_fn (h ! weight (embedding self)) (h ! bias (embedding self)) (h ! x) = Inr (h1 ! a1)"
    by auto
  from add_PE_Inr [of self h y1 a1 h2] s2 h1 a1 pe
  obtain y2 where h2: "h2 = h @ y2" and l2: "length h2 = length h1"
    and v2: "plus_table (map_option ((!) h) (PE self)) (h1 ! a1) = Inr (h2 ! a1)"
    by auto
  from encoding_stack_Inr [OF s3] a1 l2
  obtain z3 where h3': "h3 = h2 @ z3" and a3: "a3 < length h3" "a3 = a1 \<or> length h2 \<le> a3"
    and v3: "encoder_layers ops (layers_encoding self) (h2 ! a1) = Inr (h3 ! a3)"
    by auto
  from h3' h2 have h3: "h3 = h @ (y2 @ z3)" by simp
  from a3 a1 l2 have a3h: "length h \<le> a3" by auto
  from add_PE_Inr [of self h "y2 @ z3" a3 h4] s4 h3 a3 a3h pe
  obtain y4 where h4: "h4 = h @ y4" and l4: "length h4 = length h3"
    and v4: "plus_table (map_option ((!) h) (PE self)) (h3 ! a3) = Inr (h4 ! a3)"
    by auto
  from decoding_stack_Inr [OF s5] a3 l4
  obtain z5 where h5': "h5 = h4 @ z5" and a5: "a5 < length h5"
    and v5: "decoder_layers ops (layers_decoding self) (h4 ! a3) (h4 ! a3) = Inr (h5 ! a5)"
    by auto
  from h5' h4 have h5: "h5 = h @ (y4 @ z5)" by simp
  from Linear_forward_Inr [of "linear self" h "y4 @ z5" a5 h6 a6] s6 h5 lin
  obtain y6 where h6: "h6 = h @ y6" and a6: "a6 < length h6"
    and v6: "linear_fn (h ! weight (linear self)) (h ! bias (linear self)) (h5 ! a5) = Inr (h6 ! a6)"
    by auto
  from s7 have h': "h' = h6 @ [map_tensor (sigmoid ops) (h6 ! a6)]" and out: "out = length h6"
    by (simp_all add: torch_sigmoid_def alloc_def)
  have "forward_value ops self h (h ! x) = Inr (h' ! out)"
    using v1 v2 v3 v4 v5 v6 h' out
    by (simp add: forward_value_def composition_def and_then_def)
  with h' out h6 show ?thesis by auto
qed

lemma forward_Inl:
  assumes run: "forward ops self h x = Inl (e, h')" and refs: "refs_ok self h x"
  shows "(\<exists>ys. h' = h @ ys) \<and> forward_value ops self h (h ! x) = Inl e"
proof -
  from refs have x: "x < length h"
    and emb: "weight (embedding self) < length h" "bias (embedding self) < length h"
    and lin: "weight (linear self) < length h" "bias (linear self) < length h"
    and pe: "case PE self of Some pe \<Rightarrow> pe < length h | None \<Rightarrow> True"
    by (simp_all add: refs_ok_def)
  let ?T = "map_option ((!) h) (PE self)"
  show ?thesis
  proof (cases "Linear_forward (embedding self) h x")
    case (Inl r)
    with run have "r = (e, h')" by (simp add: forward_def)
    with Inl Linear_forward_Inl [of "embedding self" h "[]" x e h'] emb
    show ?thesis by (simp add: forward_value_def composition_def and_then_def)
  next
    case (Inr r1)
    obtain h1 a1 where r1: "r1 = (h1, a1)" by (cases r1)
    note s1 = Inr [unfolded r1]
    from Linear_forward_Inr [of "embedding self" h "[]" x h1 a1] s1 emb
    obtain y1 where h1: "h1 = h @ y1" and a1: "a1 = length h" "a1 < length h1"
      and v1: "linear_fn (h ! weight (embedding self)) (h ! bias (embedding self)) (h ! x) = Inr (h1 ! a1)"
      by auto
    show ?thesis
    proof (cases "add_PE self h1 a1")
      case (Inl r)
      with run s1 have "r = (e, h')" by (simp add: forward_def)
      with Inl add_PE_Inl [of self h y1 a1 e h'] h1 pe v1
      show ?thesis by (auto simp: forward_value_def composition_def and_then_def)
    next
      case (Inr h2)
      note s2 = this
      from add_PE_Inr [of self h y1 a1 h2] s2 h1 a1 pe
      obtain y2 where h2: "h2 = h @ y2" and l2: "length h2 = length h1"
        and v2: "plus_table ?T (h1 ! a1) = Inr (h2 ! a1)"
        by auto
      show ?thesis
      proof (cases "encoding_stack ops (layers_encoding self) h2 a1")
        case (Inl r)
        with run s1 s2 have "r = (e, h')"
          by (simp add: forward_def)
        with Inl have s3: "encoding_stack ops (layers_encoding self) h2 a1 = Inl (e, h')"
          by simp
        from a1 l2 have "a1 < length h2" by simp
        from encoding_stack_Inl [OF s3 this]
        obtain zs where "h' = h2 @ zs"
          and "encoder_layers ops (layers_encoding self) (h2 ! a1) = Inl e"
          by auto
        with v1 v2 h2 show ?thesis
          by (auto simp: forward_value_def composition_def and_then_def)
      next
        case (Inr r3)
        obtain h3 a3 where r3: "r3 = (h3, a3)" by (cases r3)
        note s3 = Inr [unfolded r3]
        from encoding_stack_Inr [OF s3] a1 l2
        obtain z3 where h3': "h3 = h2 @ z3" and a3: "a3 < length h3" "a3 = a1 \<or> length h2 \<le> a3"
          and v3: "encoder_layers ops (layers_encoding self) (h2 ! a1) = Inr (h3 ! a3)"
          by auto
        from h3' h2 have h3: "h3 = h @ (y2 @ z3)" by simp
        from a3 a1 l2 have a3h: "length h \<le> a3" by auto
        show ?thesis
        proof (cases "add_PE self h3 a3")
          case (Inl r)
          with run s1 s2 s3 have "r = (e, h')"
            by (simp add: forward_def)
          with Inl add_PE_Inl [of self h "y2 @ z3" a3 e h'] h3 pe v1 v2 v3
          show ?thesis by (auto simp: forward_value_def composition_def and_then_def)
        next
          case (Inr h4)
          note s4 = this
          from add_PE_Inr [of self h "y2 @ z3" a3 h4] s4 h3 a3 a3h pe
          obtain y4 where h4: "h4 = h @ y4" and l4: "length h4 = length h3"
            and v4: "plus_table ?T (h3 ! a3) = Inr (h4 ! a3)"
            by auto
          show ?thesis
          proof (cases "decoding_stack ops (layers_decoding self) h4 a3 a3")
            case (Inl r)
            with run s1 s2 s3 s4 have "r = (e, h')"
              by (simp add: forward_def)
            with Inl have s5: "decoding_stack ops (layers_decoding self) h4 a3 a3 = Inl (e, h')"
              by simp
            from a3 l4 have "a3 < length h4" by simp
            from decoding_stack_Inl [OF s5 this this]
            obtain zs where "h' = h4 @ zs"
              and "decoder_layers ops (layers_decoding self) (h4 ! a3) (h4 ! a3) = Inl e"
              by auto
            with v1 v2 v3 v4 h4 show ?thesis
              by (auto simp: forward_value_def composition_def and_then_def)
          next
            case (Inr r5)
            obtain h5 a5 where r5: "r5 = (h5, a5)" by (cases r5)
            note s5 = Inr [unfolded r5]
            from decoding_stack_Inr [OF s5] a3 l4
            obtain z5 where h5': "h5 = h4 @ z5" and a5: "a5 < length h5"
              and v5: "decoder_layers ops (layers_decoding self) (h4 ! a3) (h4 ! a3) = Inr (h5 ! a5)"
              by auto
            from h5' h4 have h5: "h5 = h @ (y4 @ z5)" by simp
            from run s1 s2 s3 s4 s5
            have "Linear_forward (linear self) h5 a5 = Inl (e, h')"
              by (simp add: forward_def split: sum.splits prod.splits)
            with Linear_forward_Inl [of "linear self" h "y4 @ z5" a5 e h'] h5 lin v1 v2 v3 v4 v5
            show ?thesis by (auto simp: forward_value_def composition_def and_then_def)
          qed
        qed
      qed
    qed
  qed
qed

lemma forward_sim:
  assumes refs: "refs_ok self h x"
  shows "returned (forward ops self h x) = forward_value ops self h (h ! x)"
    and "\<exists>ys. store_after (forward ops self h x) = h @ ys"
proof -
  show "returned (forward ops self h x) = forward_value ops self h (h ! x)"
  proof (cases "forward ops self h x")
    case (Inl r)
    obtain e g where "r = (e, g)" by (cases r)
    with Inl forward_Inl [OF _ refs, of ops e g] show ?thesis by (simp add: returned_def)
  next
    case (Inr r)
    obtain g out where "r = (g, out)" by (cases r)
    with Inr forward_Inr [OF _ refs, of ops g out] show ?thesis by (simp add: returned_def)
  qed
  show "\<exists>ys. store_after (forward ops self h x) = h @ ys"
  proof (cases "forward ops self h x")
    case (Inl r)
    obtain e g where "r = (e, g)" by (cases r)
    with Inl forward_Inl [OF _ refs, of ops e g] show ?thesis by (simp add: store_after_def)
  next
    case (Inr r)
    obtain g out where "r = (g, out)" by (cases r)
    with Inr forward_Inr [OF _ refs, of ops g out] show ?thesis by (simp add: store_after_def)
  qed
qed

lemma refs_ok_append: "refs_ok self h x \<Longrightarrow> refs_ok self (h @ ys) x"
  by (auto simp: refs_ok_def split: option.splits)

lemma same_parameters_append: "refs_ok self h x \<Longrightarrow> same_parameters self h self (h @ ys)"
  by (auto simp: refs_ok_def same_parameters_def nth_append split: option.splits)

lemma forward_value_cong:
  "same_parameters self h self' h' \<Longrightarrow> forward_value ops self' h' x = forward_value ops self h x"
  by (simp add: same_parameters_def forward_value_def)

section \<open>Shapes\<close>

lemma length_chop: "length (chop n d xs) = n"
  by (induction n arbitrary: xs) simp_all

lemma chop_block_length:
  "b \<in> set (chop n d xs) \<Longrightarrow> n * d \<le> length xs \<Longrightarrow> length b = d"
proof (induction n arbitrary: xs)
  case 0
  then show ?case by simp
next
  case (Suc n)
  from Suc.prems(2) have le: "d \<le> length xs" and rest: "n * d \<le> length (drop d xs)"
    by simp_all
  from Suc.prems(1) have "b = take d xs \<or> b \<in> set (chop n d (drop d xs))" by simp
  then show ?case
  proof
    assume "b = take d xs"
    with le show ?thesis by simp
  next
    assume "b \<in> set (chop n d (drop d xs))"
    from Suc.IH [OF this rest] show ?thesis .
  qed
qed

lemma length_concat_map_const:
  "(\<And>x. x \<in> set xs \<Longrightarrow> length (f x) = c) \<Longrightarrow> length (concat (map f xs)) = length xs * c"
  by (induction xs) simp_all

lemma linear_fn_has_shape:
  assumes W: "shape W = [out, inn]" and b: "has_shape [out] b" and x: "shape x = s @ [inn]"
  shows "\<exists>t. linear_fn W b x = Inr t \<and> has_shape (s @ [out]) t"
proof -
  from b have sb: "shape b = [out]" and lb: "length (data b) = out"
    by (simp_all add: has_shape_def wf_tensor_def)
  let ?row = "\<lambda>r. map2 (\<lambda>w c. dot r w + c) (chop out inn (data W)) (data b)"
  have row: "length (?row r) = out" for r
    by (simp add: length_chop lb)
  have "length (concat (map ?row (chop (prod_list s) inn (data x)))) = prod_list s * out"
    using row by (simp add: length_concat_map_const length_chop)
  with W sb x show ?thesis
    by (simp add: linear_fn_def has_shape_def wf_tensor_def)
qed

lemma length_expand:
  "list_all2 (\<lambda>n q. q = n \<or> q = 1) ns ps \<Longrightarrow> length xs = prod_list ps \<Longrightarrow>
     length (expand ns ps xs) = prod_list ns"
proof (induction ns ps arbitrary: xs rule: list_all2_induct)
  case Nil
  then show ?case by simp
next
  case (Cons n ns p ps)
  show ?case
  proof (cases "p = n")
    case True
    have "length (expand ns ps b) = prod_list ns" if "b \<in> set (chop n (prod_list ps) xs)" for b
    proof -
      from that Cons.prems True have "length b = prod_list ps"
        by (intro chop_block_length [of b n _ xs]) simp_all
      then show ?thesis by (rule Cons.IH)
    qed
    with True show ?thesis
      by (simp add: length_concat_map_const length_chop)
  next
    case False
    with Cons.hyps have "p = 1" by simp
    with Cons.prems have "length xs = prod_list ps" by simp
    then have "length (expand ns ps xs) = prod_list ns" by (rule Cons.IH)
    moreover have "length (concat (replicate n ys)) = n * length ys" for ys :: "'a list"
      by (induction n) simp_all
    ultimately show ?thesis using False by simp
  qed
qed

lemma broadcastable_padded:
  assumes "broadcastable s p"
  shows "list_all2 (\<lambda>n q. q = n \<or> q = 1) s (replicate (length s - length p) 1 @ p)"
proof -
  let ?j = "length s - length p"
  from assms have le: "length p \<le> length s"
    and tl: "list_all2 (\<lambda>n q. q = n \<or> q = 1) (drop ?j s) p"
    by (simp_all add: broadcastable_def)
  have hd: "list_all2 (\<lambda>n q. q = n \<or> q = (1::nat)) (take ?j s) (replicate ?j 1)"
    by (simp add: list_all2_conv_all_nth)
  from list_all2_appendI [OF hd tl] show ?thesis by simp
qed

lemma add_bcast_has_shape:
  assumes t: "has_shape s t" and p: "wf_tensor p" and bc: "broadcastable s (shape p)"
  shows "\<exists>t'. add_bcast t p = Inr t' \<and> has_shape s t'"
proof -
  from t have st: "shape t = s" and lt: "length (data t) = prod_list s"
    by (simp_all add: has_shape_def wf_tensor_def)
  let ?ps = "replicate (length s - length (shape p)) 1 @ shape p"
  from p have "length (data p) = prod_list ?ps" by (simp add: wf_tensor_def)
  with broadcastable_padded [OF bc] have "length (expand s ?ps (data p)) = prod_list s"
    by (rule length_expand)
  with st lt bc show ?thesis
    by (simp add: add_bcast_def has_shape_def wf_tensor_def)
qed

lemma plus_table_has_shape:
  assumes t: "has_shape [B, k, d] t"
    and T: "case table of Some T \<Rightarrow> has_shape [k, d] T | None \<Rightarrow> True"
  shows "\<exists>t'. plus_table table t = Inr t' \<and> has_shape [B, k, d] t'"
proof (cases table)
  case None
  with t show ?thesis by (simp add: plus_table_def)
next
  case (Some T')
  with T have "has_shape [k, d] T'" by simp
  then have "wf_tensor T'" and "broadcastable [B, k, d] (shape T')"
    by (simp_all add: has_shape_def broadcastable_def)
  from add_bcast_has_shape [OF t this] Some show ?thesis by (simp add: plus_table_def)
qed

lemma encoder_layers_has_shape:
  "list_all (encoder_contract ops s) ls \<Longrightarrow> has_shape s t \<Longrightarrow>
     \<exists>t'. encoder_layers ops ls t = Inr t' \<and> has_shape s t'"
proof (induction ls arbitrary: t)
  case Nil
  then show ?case by simp
next
  case (Cons l ls)
  from Cons.prems obtain t1 where "enc_forward ops l t = Inr t1" and "has_shape s t1"
    by (auto simp: encoder_contract_def)
  moreover from Cons.prems have "list_all (encoder_contract ops s) ls" by simp
  ultimately show ?case using Cons.IH [of t1] by (simp add: and_then_def)
qed

lemma decoder_layers_has_shape:
  "list_all (decoder_contract ops s) ls \<Longrightarrow> has_shape s t \<Longrightarrow> has_shape s m \<Longrightarrow>
     \<exists>t'. decoder_layers ops ls t m = Inr t' \<and> has_shape s t'"
proof (induction ls arbitrary: t)
  case Nil
  then show ?case by simp
next
  case (Cons l ls)
  from Cons.prems obtain t1 where "dec_forward ops l t m = Inr t1" and "has_shape s t1"
    by (auto simp: decoder_contract_def)
  moreover from Cons.prems have "list_all (decoder_contract ops s) ls" by simp
  ultimately show ?case using Cons.IH [of t1] Cons.prems(3) by (simp add: and_then_def)
qed

lemma map_tensor_has_shape: "has_shape s t \<Longrightarrow> has_shape s (map_tensor f t)"
  by (simp add: has_shape_def wf_tensor_def map_tensor_def)

lemma forward_value_has_shape:
  assumes cfg: "configured ops self h B k d_input d_model d_output"
    and x: "shape x = [B, k, d_input]"
  shows "\<exists>t. forward_value ops self h x = Inr t \<and> has_shape [B, k, d_output] t"
proof -
  let ?T = "map_option ((!) h) (PE self)"
  from cfg have W1: "shape (h ! weight (embedding self)) = [d_model, d_input]"
    and b1: "has_shape [d_model] (h ! bias (embedding self))"
    and W2: "shape (h ! weight (linear self)) = [d_output, d_model]"
    and b2: "has_shape [d_output] (h ! bias (linear self))"
    and T: "case ?T of Some T \<Rightarrow> has_shape [k, d_model] T | None \<Rightarrow> True"
    and encs: "list_all (encoder_contract ops [B, k, d_model]) (layers_encoding self)"
    and decs: "list_all (decoder_contract ops [B, k, d_model]) (layers_decoding self)"
    by (auto simp: configured_def has_shape_def split: option.splits)
  from linear_fn_has_shape [OF W1 b1, of x "[B, k]"] x
  obtain E0 where e0: "linear_fn (h ! weight (embedding self)) (h ! bias (embedding self)) x = Inr E0"
    and E0: "has_shape [B, k, d_model] E0" by auto
  from plus_table_has_shape [OF E0 T]
  obtain E1 where e1: "plus_table ?T E0 = Inr E1" and E1: "has_shape [B, k, d_model] E1" by auto
  from encoder_layers_has_shape [OF encs E1]
  obtain M0 where m0: "encoder_layers ops (layers_encoding self) E1 = Inr M0"
    and M0: "has_shape [B, k, d_model] M0" by auto
  from plus_table_has_shape [OF M0 T]
  obtain M where m: "plus_table ?T M0 = Inr M" and M: "has_shape [B, k, d_model] M" by auto
  from decoder_layers_has_shape [OF decs M M]
  obtain D where d: "decoder_layers ops (layers_decoding self) M M = Inr D"
    and D: "has_shape [B, k, d_model] D" by auto
  from D have "shape D = [B, k] @ [d_model]" by (simp add: has_shape_def)
  from linear_fn_has_shape [OF W2 b2 this]
  obtain out where o: "linear_fn (h ! weight (linear self)) (h ! bias (linear self)) D = Inr out"
    and out: "has_shape [B, k, d_output] out" by auto
  from e0 e1 m0 m d o map_tensor_has_shape [OF out, of "sigmoid ops"]
  show ?thesis by (simp add: forward_value_def composition_def and_then_def)
qed

lemma ops0_encoder_contract: "encoder_contract ops0 s l"
  by (simp add: encoder_contract_def ops0_def has_shape_def wf_tensor_def map_tensor_def)

lemma ops0_decoder_contract: "decoder_contract ops0 s l"
  by (simp add: decoder_contract_def ops0_def has_shape_def wf_tensor_def)

section \<open>Construction, step by step\<close>

lemma build_returns: "returns ctor \<Longrightarrow> \<exists>xs w'. build ctor n w = Inr (xs, w')"
proof (induction n arbitrary: w)
  case 0
  then show ?case by simp
next
  case (Suc n)
  from Suc.prems obtain x w1 where c: "ctor w = Inr (x, w1)"
    unfolding returns_def by blast
  from Suc.IH [OF Suc.prems, of w1] obtain xs w2 where "build ctor n w1 = Inr (xs, w2)"
    by blast
  with c show ?case by simp
qed

lemma build_Inr:
  "build ctor n w = Inr (xs, w') \<Longrightarrow>
     length xs = n \<and> (\<forall>x\<in>set xs. \<exists>w0 w1. ctor w0 = Inr (x, w1))"
proof (induction n arbitrary: w xs)
  case 0
  then show ?case by simp
next
  case (Suc n)
  from Suc.prems obtain x w1 ys where c: "ctor w = Inr (x, w1)"
    and b: "build ctor n w1 = Inr (ys, w')" and xs: "xs = x # ys"
    by (auto split: sum.splits prod.splits)
  from Suc.IH [OF b] c xs show ?case by auto
qed

lemma build_Inl: "build ctor n w = Inl e \<Longrightarrow> \<exists>w0. ctor w0 = Inl e"
proof (induction n arbitrary: w)
  case 0
  then show ?case by simp
next
  case (Suc n)
  show ?case
  proof (cases "ctor w")
    case (Inl e')
    with Suc.prems show ?thesis by auto
  next
    case (Inr r)
    obtain x w1 where "r = (x, w1)" by (cases r)
    with Inr Suc.prems have "build ctor n w1 = Inl e"
      by (auto split: sum.splits prod.splits)
    then show ?thesis by (rule Suc.IH)
  qed
qed

lemma map_of_pe_functions:
  "map_of (pe_functions l) name =
     (if name = ''original'' then Some (generate_original_PE l)
      else if name = ''regular'' then Some (generate_regular_PE l) else None)"
  by (simp add: pe_functions_def)

lemma pe_message_keys:
  "pe_message name (map fst (pe_functions l)) =
     ''PE '' @ [CHR 0x22] @ name @ [CHR 0x22] @
     '' not understood. Must be one of original, regular or None.''"
  by (simp add: pe_message_def pe_functions_def)

lemma init_Inr:
  assumes "Transformer_init l d_input d_model d_output q v h k N dropout chunk_mode pe w = Inr (self, w')"
  shows "\<exists>w1 w2 w3 w4.
           build (Encoder l d_model q v h k dropout chunk_mode) (nat N) w = Inr (layers_encoding self, w1) \<and>
           build (Decoder l d_model q v h k dropout chunk_mode) (nat N) w1 = Inr (layers_decoding self, w2) \<and>
           Linear l d_input d_model w2 = Inr (embedding self, w3) \<and>
           Linear l d_model d_output w3 = Inr (linear self, w4) \<and>
           (case pe of
              None \<Rightarrow> PE self = None \<and> w' = w4
            | Some name \<Rightarrow>
                \<exists>generate table. map_of (pe_functions l) name = Some generate \<and>
                  generate k d_model w4 = Inr (table, w') \<and> PE self = Some table)"
  using assms unfolding Transformer_init_def
  by (auto split: sum.splits prod.splits option.splits)

lemma init_Inl:
  assumes "Transformer_init l d_input d_model d_output q v h k N dropout chunk_mode pe w = Inl e"
  shows "(\<exists>w0. Encoder l d_model q v h k dropout chunk_mode w0 = Inl e) \<or>
         (\<exists>w0. Decoder l d_model q v h k dropout chunk_mode w0 = Inl e) \<or>
         (\<exists>w0. Linear l d_input d_model w0 = Inl e) \<or>
         (\<exists>w0. Linear l d_model d_output w0 = Inl e) \<or>
         (\<exists>w0. pe = Some ''original'' \<and> generate_original_PE l k d_model w0 = Inl e) \<or>
         (\<exists>w0. pe = Some ''regular'' \<and> generate_regular_PE l k d_model w0 = Inl e) \<or>
         (\<exists>name. pe = Some name \<and> name \<noteq> ''original'' \<and> name \<noteq> ''regular'' \<and>
            e = NameError (pe_message name (map fst (pe_functions l))))"
proof (cases "build (Encoder l d_model q v h k dropout chunk_mode) (nat N) w")
  case (Inl e1)
  with assms have "e1 = e" by (simp add: Transformer_init_def)
  with Inl build_Inl [of "Encoder l d_model q v h k dropout chunk_mode" "nat N" w e]
  show ?thesis by blast
next
  case (Inr r1)
  obtain encs w1 where r1: "r1 = (encs, w1)" by (cases r1)
  note s1 = Inr [unfolded r1]
  show ?thesis
  proof (cases "build (Decoder l d_model q v h k dropout chunk_mode) (nat N) w1")
    case (Inl e2)
    with assms s1 have "e2 = e" by (simp add: Transformer_init_def)
    with Inl build_Inl [of "Decoder l d_model q v h k dropout chunk_mode" "nat N" w1 e]
    show ?thesis by blast
  next
    case (Inr r2)
    obtain decs w2 where r2: "r2 = (decs, w2)" by (cases r2)
    note s2 = Inr [unfolded r2]
    show ?thesis
    proof (cases "Linear l d_input d_model w2")
      case (Inl e3)
      with assms s1 s2 have "e3 = e" by (simp add: Transformer_init_def)
      with Inl show ?thesis by blast
    next
      case (Inr r3)
      obtain emb w3 where r3: "r3 = (emb, w3)" by (cases r3)
      note s3 = Inr [unfolded r3]
      show ?thesis
      proof (cases "Linear l d_model d_output w3")
        case (Inl e4)
        with assms s1 s2 s3 have "e4 = e" by (simp add: Transformer_init_def)
        with Inl show ?thesis by blast
      next
        case (Inr r4)
        obtain lin w4 where r4: "r4 = (lin, w4)" by (cases r4)
        note s4 = Inr [unfolded r4]
        from assms s1 s2 s3 s4 obtain name where pe: "pe = Some name"
          by (cases pe) (simp_all add: Transformer_init_def)
        consider "name = ''original''" | "name = ''regular''"
          | "name \<noteq> ''original''" "name \<noteq> ''regular''" by blast
        then show ?thesis
        proof cases
          case 1
          with assms s1 s2 s3 s4 pe have "generate_original_PE l k d_model w4 = Inl e"
            by (simp add: Transformer_init_def map_of_pe_functions split: sum.splits prod.splits)
          with 1 pe show ?thesis by blast
        next
          case 2
          with assms s1 s2 s3 s4 pe have "generate_regular_PE l k d_model w4 = Inl e"
            by (simp add: Transformer_init_def map_of_pe_functions split: sum.splits prod.splits)
          with 2 pe show ?thesis by blast
        next
          case 3
          with assms s1 s2 s3 s4 pe
          have "e = NameError (pe_message name (map fst (pe_functions l)))"
            by (simp add: Transformer_init_def map_of_pe_functions)
          with 3 pe show ?thesis by blast
        qed
      qed
    qed
  qed
qed

lemma init_unknown_pe:
  assumes "name \<noteq> ''original''" and "name \<noteq> ''regular''"
  shows "Transformer_init l d_input d_model d_output q v h k N dropout chunk_mode (Some name) w \<noteq>
           Inr (self, w')"
proof
  assume "Transformer_init l d_input d_model d_output q v h k N dropout chunk_mode (Some name) w =
            Inr (self, w')"
  from init_Inr [OF this] assms show False by (simp add: map_of_pe_functions)
qed

lemma init_steps:
  assumes lay: "layers_constructible l d_model q v h k dropout chunk_mode"
    and lin1: "returns (Linear l d_input d_model)" and lin2: "returns (Linear l d_model d_output)"
  shows "\<exists>encs decs emb lin w1 w2 w3 w4.
           build (Encoder l d_model q v h k dropout chunk_mode) (nat N) w = Inr (encs, w1) \<and>
           build (Decoder l d_model q v h k dropout chunk_mode) (nat N) w1 = Inr (decs, w2) \<and>
           Linear l d_input d_model w2 = Inr (emb, w3) \<and>
           Linear l d_model d_output w3 = Inr (lin, w4)"
proof -
  from lay have e: "returns (Encoder l d_model q v h k dropout chunk_mode)"
    and d: "returns (Decoder l d_model q v h k dropout chunk_mode)"
    by (simp_all add: layers_constructible_def)
  from build_returns [OF e] obtain encs w1 where
    s1: "build (Encoder l d_model q v h k dropout chunk_mode) (nat N) w = Inr (encs, w1)" by blast
  from build_returns [OF d] obtain decs w2 where
    s2: "build (Decoder l d_model q v h k dropout chunk_mode) (nat N) w1 = Inr (decs, w2)" by blast
  from lin1 obtain emb w3 where s3: "Linear l d_input d_model w2 = Inr (emb, w3)"
    unfolding returns_def by blast
  from lin2 obtain lin w4 where s4: "Linear l d_model d_output w3 = Inr (lin, w4)"
    unfolding returns_def by blast
  from s1 s2 s3 s4 show ?thesis by blast
qed

lemma init_succeeds:
  assumes lay: "layers_constructible l d_model q v h k dropout chunk_mode"
    and md: "modules_constructible l d_input d_model d_output k"
    and pe: "pe = None \<or> pe = Some ''original'' \<or> pe = Some ''regular''"
  shows "\<exists>self w'. Transformer_init l d_input d_model d_output q v h k N dropout chunk_mode pe w =
           Inr (self, w')"
proof -
  from md have lin1: "returns (Linear l d_input d_model)"
    and lin2: "returns (Linear l d_model d_output)"
    and g1: "returns (generate_original_PE l k d_model)"
    and g2: "returns (generate_regular_PE l k d_model)"
    by (simp_all add: modules_constructible_def)
  from init_steps [OF lay lin1 lin2, of N w] obtain encs decs emb lin w1 w2 w3 w4 where
    s: "build (Encoder l d_model q v h k dropout chunk_mode) (nat N) w = Inr (encs, w1)"
       "build (Decoder l d_model q v h k dropout chunk_mode) (nat N) w1 = Inr (decs, w2)"
       "Linear l d_input d_model w2 = Inr (emb, w3)"
       "Linear l d_model d_output w3 = Inr (lin, w4)" by blast
  from g1 obtain t1 v1 where o: "generate_original_PE l k d_model w4 = Inr (t1, v1)"
    unfolding returns_def by blast
  from g2 obtain t2 v2 where r: "generate_regular_PE l k d_model w4 = Inr (t2, v2)"
    unfolding returns_def by blast
  from pe s o r show ?thesis
    by (auto simp: Transformer_init_def map_of_pe_functions)
qed

lemma init_fails:
  assumes lay: "layers_constructible l d_model q v h k dropout chunk_mode"
    and md: "modules_constructible l d_input d_model d_output k"
    and name: "name \<noteq> ''original''" "name \<noteq> ''regular''"
  shows "Transformer_init l d_input d_model d_output q v h k N dropout chunk_mode (Some name) w =
           Inl (NameError (pe_message name (map fst (pe_functions l))))"
proof -
  from md have lin1: "returns (Linear l d_input d_model)"
    and lin2: "returns (Linear l d_model d_output)"
    by (simp_all add: modules_constructible_def)
  from init_steps [OF lay lin1 lin2, of N w] obtain encs decs emb lin w1 w2 w3 w4 where
    s: "build (Encoder l d_model q v h k dropout chunk_mode) (nat N) w = Inr (encs, w1)"
       "build (Decoder l d_model q v h k dropout chunk_mode) (nat N) w1 = Inr (decs, w2)"
       "Linear l d_input d_model w2 = Inr (emb, w3)"
       "Linear l d_model d_output w3 = Inr (lin, w4)" by blast
  with name show ?thesis
    by (simp add: Transformer_init_def map_of_pe_functions)
qed

lemma lib0_layers_constructible:
  "layers_constructible lib0 d_model q v h k dropout (PyStr s)"
  by (simp add: layers_constructible_def returns_def lib0_def)

lemma lib0_modules_constructible:
  "0 \<le> d_input \<Longrightarrow> 0 \<le> d_model \<Longrightarrow> 0 \<le> d_output \<Longrightarrow>
     modules_constructible lib0 d_input d_model d_output k"
  by (simp add: modules_constructible_def returns_def lib0_def)

lemma composition_without_table:
  "composition ops W1 b1 encs decs W2 b2 None x = pipeline_without_PE ops W1 b1 encs decs W2 b2 x"
  by (simp add: composition_def pipeline_without_PE_def plus_table_def and_then_def)

lemma composition_without_layers:
  "composition ops W1 b1 [] [] W2 b2 table x = no_layers ops W1 b1 W2 b2 table x"
  by (cases table) (simp_all add: composition_def no_layers_def plus_table_def and_then_def)

section \<open>The forward pass\<close>

text \<open>
  Claim C1. For every input, \<open>forward\<close> returns what the composition of the
  specification returns on the values of the parameters: the embedding, the table added
  if there is one, the encoder layers in order, the table added a second time, the
  decoder layers in order, each given the same memory, the output projection and the
  sigmoid. Where the composition raises, \<open>forward\<close> raises the same exception. The
  only assumption is that the references are references into the store.
\<close>

theorem forward_is_composition:
  assumes "refs_ok self h x"
  shows "returned (forward ops self h x) =
         composition ops (h ! weight (embedding self)) (h ! bias (embedding self))
           (layers_encoding self) (layers_decoding self)
           (h ! weight (linear self)) (h ! bias (linear self))
           (map_option ((!) h) (PE self)) (h ! x)"
  using forward_sim(1) [OF assms, of ops] by (simp add: forward_value_def)

theorem forward_is_composition_witness:
  "refs_ok m0 h0 5 \<and>
   returned (forward ops0 m0 h0 5) =
     composition ops0 (h0 ! 0) (h0 ! 1) [1, 2] [3, 4] (h0 ! 2) (h0 ! 3) (Some (h0 ! 4)) (h0 ! 5) \<and>
   returned (forward ops0 m0 h0 5) = Inr \<lparr>shape = [1, 2, 1], data = [3, 1]\<rparr>"
proof -
  have r: "refs_ok m0 h0 5" by (simp add: refs_ok_def m0_def h0_def)
  have c: "composition ops0 (h0 ! 0) (h0 ! 1) [1, 2] [3, 4] (h0 ! 2) (h0 ! 3) (Some (h0 ! 4)) (h0 ! 5)
           = Inr \<lparr>shape = [1, 2, 1], data = [3, 1]\<rparr>"
    by code_simp
  from forward_is_composition [OF r, of ops0] r c show ?thesis by (simp add: m0_def)
qed

text \<open>
  Claim C2. In a valid configuration, with encoder and decoder layers that keep the
  shape \<open>(batch_size, k, d_model)\<close>, \<open>forward\<close> on an input of shape
  \<open>(batch_size, k, d_input)\<close> raises nothing and returns a tensor of shape
  \<open>(batch_size, k, d_output)\<close>.
\<close>

theorem forward_shape:
  assumes refs: "refs_ok self h x"
    and cfg: "configured ops self h batch_size k d_input d_model d_output"
    and x: "has_shape [batch_size, k, d_input] (h ! x)"
  shows "\<exists>h' out. forward ops self h x = Inr (h', out) \<and>
           has_shape [batch_size, k, d_output] (h' ! out)"
proof -
  from x have "shape (h ! x) = [batch_size, k, d_input]" by (simp add: has_shape_def)
  from forward_value_has_shape [OF cfg this]
  obtain t where "forward_value ops self h (h ! x) = Inr t"
    and t: "has_shape [batch_size, k, d_output] t" by auto
  with forward_sim(1) [OF refs, of ops] have "returned (forward ops self h x) = Inr t" by simp
  then obtain h' out where "forward ops self h x = Inr (h', out)" and "h' ! out = t"
    by (auto simp: returned_def split: sum.splits prod.splits)
  with t show ?thesis by auto
qed

theorem forward_shape_witness:
  "refs_ok m0 h0 5 \<and> configured ops0 m0 h0 1 2 3 2 1 \<and> has_shape [1, 2, 3] (h0 ! 5) \<and>
   (\<exists>h' out. forward ops0 m0 h0 5 = Inr (h', out) \<and> has_shape [1, 2, 1] (h' ! out))"
proof -
  have r: "refs_ok m0 h0 5" by (simp add: refs_ok_def m0_def h0_def)
  have c: "configured ops0 m0 h0 1 2 3 2 1"
    by (simp add: configured_def ops0_encoder_contract ops0_decoder_contract m0_def h0_def
        has_shape_def wf_tensor_def)
  have x: "has_shape [1, 2, 3] (h0 ! 5)" by (simp add: h0_def has_shape_def wf_tensor_def)
  from forward_shape [OF r c x] r c x show ?thesis by simp
qed

text \<open>
  Claim C7. A call of \<open>forward\<close>, whether it returns or raises, leaves every tensor
  that existed before the call as it was: the parameters of the embedding and of the
  output projection, the table and the input among them. What it returns is a tensor it
  allocated. So the two in-place additions write to tensors of this call only. (The
  parameters of the layers are inside the layers, which are functions here.)
\<close>

theorem forward_frame:
  assumes "refs_ok self h x"
  shows "take (length h) (store_after (forward ops self h x)) = h \<and>
         store_after (forward ops self h x) ! weight (embedding self) = h ! weight (embedding self) \<and>
         store_after (forward ops self h x) ! bias (embedding self) = h ! bias (embedding self) \<and>
         store_after (forward ops self h x) ! weight (linear self) = h ! weight (linear self) \<and>
         store_after (forward ops self h x) ! bias (linear self) = h ! bias (linear self) \<and>
         map_option ((!) (store_after (forward ops self h x))) (PE self) = map_option ((!) h) (PE self) \<and>
         store_after (forward ops self h x) ! x = h ! x \<and>
         (\<forall>h' out. forward ops self h x = Inr (h', out) \<longrightarrow> length h \<le> out \<and> out < length h')"
proof -
  from forward_sim(2) [OF assms, of ops]
  obtain ys where s: "store_after (forward ops self h x) = h @ ys" by auto
  have "length h \<le> out \<and> out < length h'" if "forward ops self h x = Inr (h', out)" for h' out
    using forward_Inr [OF that assms] by simp
  with s assms show ?thesis
    by (auto simp: refs_ok_def nth_append split: option.splits)
qed

theorem forward_frame_witness:
  "refs_ok m0 h0 5 \<and> take (length h0) (store_after (forward ops0 m0 h0 5)) = h0 \<and>
   length (store_after (forward ops0 m0 h0 5)) = 13 \<and>
   store_after (forward ops0 m0 h0 5) ! 4 = h0 ! 4"
proof -
  have r: "refs_ok m0 h0 5" by (simp add: refs_ok_def m0_def h0_def)
  have l: "length (store_after (forward ops0 m0 h0 5)) = 13" by code_simp
  from forward_frame [OF r, of ops0] r l show ?thesis by (simp add: m0_def)
qed

text \<open>
  Claim C8. The layers being functions (dropout disabled), a second call of \<open>forward\<close>
  on the same input, in the store the first call left, returns the same value or raises
  the same exception; and two calls in any two stores return the same when the
  parameters and the input have the same values.
\<close>

theorem forward_deterministic:
  "(refs_ok self h x \<longrightarrow>
      returned (forward ops self (store_after (forward ops self h x)) x) =
      returned (forward ops self h x)) \<and>
   (refs_ok self h x \<and> refs_ok self' h' x' \<and> same_parameters self h self' h' \<and> h' ! x' = h ! x \<longrightarrow>
      returned (forward ops self' h' x') = returned (forward ops self h x))"
proof (intro conjI impI)
  assume r: "refs_ok self h x"
  from forward_sim(2) [OF r, of ops]
  obtain ys where s: "store_after (forward ops self h x) = h @ ys" by auto
  from r have r': "refs_ok self (h @ ys) x" by (rule refs_ok_append)
  from r have "(h @ ys) ! x = h ! x" by (simp add: refs_ok_def nth_append)
  with forward_sim(1) [OF r', of ops] forward_sim(1) [OF r, of ops]
    forward_value_cong [OF same_parameters_append [OF r, of ys], of ops "h ! x"] s
  show "returned (forward ops self (store_after (forward ops self h x)) x) =
        returned (forward ops self h x)" by simp
next
  assume a: "refs_ok self h x \<and> refs_ok self' h' x' \<and> same_parameters self h self' h' \<and> h' ! x' = h ! x"
  then have r: "refs_ok self h x" and r': "refs_ok self' h' x'"
    and p: "same_parameters self h self' h'" and x: "h' ! x' = h ! x" by simp_all
  from forward_sim(1) [OF r, of ops] forward_sim(1) [OF r', of ops]
    forward_value_cong [OF p, of ops "h ! x"] x
  show "returned (forward ops self' h' x') = returned (forward ops self h x)" by simp
qed

theorem forward_deterministic_witness:
  "refs_ok m0 h0 5 \<and>
   returned (forward ops0 m0 (store_after (forward ops0 m0 h0 5)) 5) = returned (forward ops0 m0 h0 5) \<and>
   returned (forward ops0 m0 h0 5) = Inr \<lparr>shape = [1, 2, 1], data = [3, 1]\<rparr>"
proof -
  have r: "refs_ok m0 h0 5" by (simp add: refs_ok_def m0_def h0_def)
  have v: "returned (forward ops0 m0 h0 5) = Inr \<lparr>shape = [1, 2, 1], data = [3, 1]\<rparr>"
    by code_simp
  from forward_deterministic [of m0 h0 5 ops0] r v show ?thesis by simp
qed

text \<open>
  Claim C6. An object constructed with \<open>pe = None\<close> stores no table; the statement
  that adds the table then leaves every store as it is, and \<open>forward\<close> returns what the
  pipeline without the two additions returns.
\<close>

theorem init_without_pe:
  assumes init: "Transformer_init l d_input d_model d_output q v h k N dropout chunk_mode None w =
                   Inr (self, w')"
    and refs: "refs_ok self hp x"
  shows "PE self = None \<and> add_PE self g a = Inr g \<and>
         returned (forward ops self hp x) =
           pipeline_without_PE ops (hp ! weight (embedding self)) (hp ! bias (embedding self))
             (layers_encoding self) (layers_decoding self)
             (hp ! weight (linear self)) (hp ! bias (linear self)) (hp ! x)"
proof -
  from init_Inr [OF init] have pe: "PE self = None" by auto
  with forward_sim(1) [OF refs, of ops] show ?thesis
    by (simp add: add_PE_def forward_value_def composition_without_table)
qed

theorem init_without_pe_witness:
  "Transformer_init lib0 3 2 1 8 8 4 2 2 (PyFloat 3 (- 1)) (PyStr ''chunk'') None (0, 1) = Inr (m1, (4, 5)) \<and>
   refs_ok m1 h0 5 \<and> PE m1 = None \<and>
   returned (forward ops0 m1 h0 5) =
     pipeline_without_PE ops0 (h0 ! 0) (h0 ! 1) [1, 2] [3, 4] (h0 ! 2) (h0 ! 3) (h0 ! 5) \<and>
   returned (forward ops0 m1 h0 5) = Inr \<lparr>shape = [1, 2, 1], data = [1, 6]\<rparr>"
proof -
  have i: "Transformer_init lib0 3 2 1 8 8 4 2 2 (PyFloat 3 (- 1)) (PyStr ''chunk'') None (0, 1) =
             Inr (m1, (4, 5))"
    by code_simp
  have r: "refs_ok m1 h0 5" by (simp add: refs_ok_def m1_def h0_def)
  have v: "pipeline_without_PE ops0 (h0 ! 0) (h0 ! 1) [1, 2] [3, 4] (h0 ! 2) (h0 ! 3) (h0 ! 5) =
             Inr \<lparr>shape = [1, 2, 1], data = [1, 6]\<rparr>"
    by code_simp
  from init_without_pe [OF i r, of h0 5 ops0] i r v show ?thesis by (simp add: m1_def)
qed

section \<open>Construction\<close>

text \<open>
  Claim C4. Let the constructors of the layers and of \<open>nn.Linear\<close> and the generators
  return. Then construction returns an object when \<open>pe\<close> is \<open>None\<close> (the claim's
  "none": absent), \<open>'original'\<close> or \<open>'regular'\<close>, and for every other \<open>pe\<close> it raises
  the \<open>NameError\<close> whose message quotes \<open>pe\<close> and lists \<open>original, regular or None\<close>.
  Whatever the constructors do, construction with such a \<open>pe\<close> never returns an object:
  there is no fallback to no positional encoding.
\<close>

theorem init_checks_pe:
  "(layers_constructible l d_model q v h k dropout chunk_mode \<and>
    modules_constructible l d_input d_model d_output k \<longrightarrow>
      (pe \<in> {None, Some ''original'', Some ''regular''} \<longrightarrow>
         (\<exists>self w'. Transformer_init l d_input d_model d_output q v h k N dropout chunk_mode pe w =
            Inr (self, w'))) \<and>
      (\<forall>name. pe = Some name \<and> name \<notin> {''original'', ''regular''} \<longrightarrow>
         Transformer_init l d_input d_model d_output q v h k N dropout chunk_mode pe w =
           Inl (NameError (''PE '' @ [CHR 0x22] @ name @ [CHR 0x22] @
                  '' not understood. Must be one of original, regular or None.'')))) \<and>
   (\<forall>name self w'. pe = Some name \<and> name \<notin> {''original'', ''regular''} \<longrightarrow>
      Transformer_init l d_input d_model d_output q v h k N dropout chunk_mode pe w \<noteq> Inr (self, w'))"
proof (intro conjI impI allI)
  assume "layers_constructible l d_model q v h k dropout chunk_mode \<and>
          modules_constructible l d_input d_model d_output k"
    and "pe \<in> {None, Some ''original'', Some ''regular''}"
  then show "\<exists>self w'. Transformer_init l d_input d_model d_output q v h k N dropout chunk_mode pe w =
               Inr (self, w')"
    by (intro init_succeeds) auto
next
  fix name
  assume "layers_constructible l d_model q v h k dropout chunk_mode \<and>
          modules_constructible l d_input d_model d_output k"
    and "pe = Some name \<and> name \<notin> {''original'', ''regular''}"
  then show "Transformer_init l d_input d_model d_output q v h k N dropout chunk_mode pe w =
           Inl (NameError (''PE '' @ [CHR 0x22] @ name @ [CHR 0x22] @
                  '' not understood. Must be one of original, regular or None.''))"
    using init_fails [of l d_model q v h k dropout chunk_mode d_input d_output name N w]
    by (simp add: pe_message_keys)
next
  fix name self w'
  assume "pe = Some name \<and> name \<notin> {''original'', ''regular''}"
  then show "Transformer_init l d_input d_model d_output q v h k N dropout chunk_mode pe w \<noteq>
               Inr (self, w')"
    using init_unknown_pe [of name l d_input d_model d_output q v h k N dropout chunk_mode w self w']
    by simp
qed

theorem init_checks_pe_witness:
  "layers_constructible lib0 2 8 8 4 2 (PyFloat 3 (- 1)) (PyStr ''chunk'') \<and>
   modules_constructible lib0 3 2 1 2 \<and>
   Transformer_init lib0 3 2 1 8 8 4 2 2 (PyFloat 3 (- 1)) (PyStr ''chunk'') (Some ''none'') (0, 1) =
     Inl (NameError (''PE '' @ [CHR 0x22] @ ''none'' @ [CHR 0x22] @
            '' not understood. Must be one of original, regular or None.'')) \<and>
   (\<exists>self w'. Transformer_init lib0 3 2 1 8 8 4 2 2 (PyFloat 3 (- 1)) (PyStr ''chunk'')
        (Some ''regular'') (0, 1) = Inr (self, w'))"
proof -
  have a: "layers_constructible lib0 2 8 8 4 2 (PyFloat 3 (- 1)) (PyStr ''chunk'')"
    by (rule lib0_layers_constructible)
  have b: "modules_constructible lib0 3 2 1 2"
    by (rule lib0_modules_constructible) simp_all
  from init_checks_pe [of lib0 2 8 8 4 2 "PyFloat 3 (- 1)" "PyStr ''chunk''" 3 1 "Some ''none''" 2 "(0, 1)"]
    init_checks_pe [of lib0 2 8 8 4 2 "PyFloat 3 (- 1)" "PyStr ''chunk''" 3 1 "Some ''regular''" 2 "(0, 1)"]
    a b
  show ?thesis by simp
qed

text \<open>
  Claim C5. The defaults of the signature are \<open>dropout = 0.3\<close>, \<open>chunk_mode = True\<close> and
  \<open>pe = None\<close>: a call that omits them is the call with these values. The default of
  \<open>chunk_mode\<close> is the boolean, none of the values \<open>'chunk'\<close>, \<open>'window'\<close>, \<open>None\<close> that
  the docstring of the class documents, and not the string \<open>'chunked'\<close>.
\<close>

theorem defaults_of_signature:
  "Transformer_init_defaults l d_input d_model d_output q v h k N w =
     Transformer_init l d_input d_model d_output q v h k N (PyFloat 3 (- 1)) (PyBool True) None w \<and>
   chunk_mode_default \<notin> {PyStr ''chunk'', PyStr ''window'', PyNone} \<and>
   chunk_mode_default \<noteq> PyStr ''chunked''"
  by (simp add: Transformer_init_defaults_def dropout_default_def chunk_mode_default_def
      pe_default_def)

text \<open>
  Claim C9. With \<open>N = 0\<close> no layer constructor is called: construction returns an object
  whenever \<open>nn.Linear\<close> and the generators return and \<open>pe\<close> is allowed, whatever the
  constructors of the layers would do. Both stacks of the object are empty, and
  \<open>forward\<close> returns the sigmoid of the output projection of the embedding, with the
  table added twice when there is one.
\<close>

theorem init_no_layers:
  "(modules_constructible l d_input d_model d_output k \<and>
    pe \<in> {None, Some ''original'', Some ''regular''} \<longrightarrow>
      (\<exists>self w'. Transformer_init l d_input d_model d_output q v h k 0 dropout chunk_mode pe w =
         Inr (self, w'))) \<and>
   (\<forall>self w'. Transformer_init l d_input d_model d_output q v h k 0 dropout chunk_mode pe w =
        Inr (self, w') \<longrightarrow>
      layers_encoding self = [] \<and> layers_decoding self = [] \<and>
      (refs_ok self hp x \<longrightarrow>
         returned (forward ops self hp x) =
           no_layers ops (hp ! weight (embedding self)) (hp ! bias (embedding self))
             (hp ! weight (linear self)) (hp ! bias (linear self))
             (map_option ((!) hp) (PE self)) (hp ! x)))"
proof (intro conjI impI allI)
  assume a: "modules_constructible l d_input d_model d_output k \<and>
             pe \<in> {None, Some ''original'', Some ''regular''}"
  then have lin1: "returns (Linear l d_input d_model)"
    and lin2: "returns (Linear l d_model d_output)"
    and g1: "returns (generate_original_PE l k d_model)"
    and g2: "returns (generate_regular_PE l k d_model)"
    by (simp_all add: modules_constructible_def)
  from lin1 obtain emb w3 where s3: "Linear l d_input d_model w = Inr (emb, w3)"
    unfolding returns_def by blast
  from lin2 obtain lin w4 where s4: "Linear l d_model d_output w3 = Inr (lin, w4)"
    unfolding returns_def by blast
  from g1 obtain t1 v1 where o: "generate_original_PE l k d_model w4 = Inr (t1, v1)"
    unfolding returns_def by blast
  from g2 obtain t2 v2 where r: "generate_regular_PE l k d_model w4 = Inr (t2, v2)"
    unfolding returns_def by blast
  from a s3 s4 o r
  show "\<exists>self w'. Transformer_init l d_input d_model d_output q v h k 0 dropout chunk_mode pe w =
          Inr (self, w')"
    by (auto simp: Transformer_init_def map_of_pe_functions)
next
  fix self w'
  assume i: "Transformer_init l d_input d_model d_output q v h k 0 dropout chunk_mode pe w =
               Inr (self, w')"
  from init_Inr [OF i] show e: "layers_encoding self = []" by auto
  from init_Inr [OF i] show d: "layers_decoding self = []" by auto
  assume refs: "refs_ok self hp x"
  from forward_sim(1) [OF refs, of ops] e d
  show "returned (forward ops self hp x) =
          no_layers ops (hp ! weight (embedding self)) (hp ! bias (embedding self))
            (hp ! weight (linear self)) (hp ! bias (linear self))
            (map_option ((!) hp) (PE self)) (hp ! x)"
    by (simp add: forward_value_def composition_without_layers)
qed

theorem init_no_layers_witness:
  "modules_constructible lib0 3 2 1 2 \<and>
   Transformer_init lib0 3 2 1 8 8 4 2 0 (PyFloat 3 (- 1)) (PyBool True) (Some ''original'') (0, 1) =
     Inr (m2, (5, 1)) \<and>
   refs_ok m2 h0 5 \<and>
   returned (forward ops0 m2 h0 5) =
     no_layers ops0 (h0 ! 0) (h0 ! 1) (h0 ! 2) (h0 ! 3) (Some (h0 ! 4)) (h0 ! 5) \<and>
   returned (forward ops0 m2 h0 5) = Inr \<lparr>shape = [1, 2, 1], data = [2, 6]\<rparr>"
proof -
  have b: "modules_constructible lib0 3 2 1 2"
    by (rule lib0_modules_constructible) simp_all
  have i: "Transformer_init lib0 3 2 1 8 8 4 2 0 (PyFloat 3 (- 1)) (PyBool True) (Some ''original'') (0, 1) =
             Inr (m2, (5, 1))"
    by code_simp
  have r: "refs_ok m2 h0 5" by (simp add: refs_ok_def m2_def h0_def)
  have v: "no_layers ops0 (h0 ! 0) (h0 ! 1) (h0 ! 2) (h0 ! 3) (Some (h0 ! 4)) (h0 ! 5) =
             Inr \<lparr>shape = [1, 2, 1], data = [2, 6]\<rparr>"
    by code_simp
  from init_no_layers [of lib0 3 2 1 2 "Some ''original''" 8 8 4 "PyFloat 3 (- 1)" "PyBool True" "(0, 1)" h0 5 ops0]
    b i r v
  show ?thesis by (simp add: m2_def)
qed

text \<open>
  Claim C10. An exception of \<open>__init__\<close> is one a constructor or a generator raised,
  called with the arguments as given, or it is the \<open>NameError\<close> for \<open>pe\<close>; so when
  constructors and generators return and \<open>pe\<close> is allowed, construction returns for
  every \<open>dropout\<close>, \<open>chunk_mode\<close>, \<open>N\<close> and every width. An object it returns has
  \<open>nat N\<close> encoder and \<open>nat N\<close> decoder layers (\<open>range(N)\<close> is empty for negative
  \<open>N\<close>), each the result of the constructor called with \<open>d_model\<close>, \<open>q\<close>, \<open>v\<close>, \<open>h\<close>,
  \<open>k\<close> and the \<open>dropout\<close> and \<open>chunk_mode\<close> that \<open>__init__\<close> was given. \<open>dropout\<close> and
  \<open>chunk_mode\<close> are of arbitrary type: \<open>__init__\<close> can only pass them on.
\<close>

theorem init_validates_only_pe:
  "(\<forall>e. Transformer_init l d_input d_model d_output q v h k N dropout chunk_mode pe w = Inl e \<longrightarrow>
      (\<exists>w0. Encoder l d_model q v h k dropout chunk_mode w0 = Inl e) \<or>
      (\<exists>w0. Decoder l d_model q v h k dropout chunk_mode w0 = Inl e) \<or>
      (\<exists>w0. Linear l d_input d_model w0 = Inl e) \<or>
      (\<exists>w0. Linear l d_model d_output w0 = Inl e) \<or>
      (\<exists>w0. pe = Some ''original'' \<and> generate_original_PE l k d_model w0 = Inl e) \<or>
      (\<exists>w0. pe = Some ''regular'' \<and> generate_regular_PE l k d_model w0 = Inl e) \<or>
      (\<exists>name. pe = Some name \<and> name \<noteq> ''original'' \<and> name \<noteq> ''regular'' \<and>
         e = NameError (pe_message name [''original'', ''regular'']))) \<and>
   (\<forall>self w'. Transformer_init l d_input d_model d_output q v h k N dropout chunk_mode pe w =
        Inr (self, w') \<longrightarrow>
      length (layers_encoding self) = nat N \<and> length (layers_decoding self) = nat N \<and>
      (\<forall>x\<in>set (layers_encoding self).
         \<exists>w0 w1. Encoder l d_model q v h k dropout chunk_mode w0 = Inr (x, w1)) \<and>
      (\<forall>x\<in>set (layers_decoding self).
         \<exists>w0 w1. Decoder l d_model q v h k dropout chunk_mode w0 = Inr (x, w1))) \<and>
   (layers_constructible l d_model q v h k dropout chunk_mode \<and>
    modules_constructible l d_input d_model d_output k \<and>
    pe \<in> {None, Some ''original'', Some ''regular''} \<longrightarrow>
      (\<exists>self w'. Transformer_init l d_input d_model d_output q v h k N dropout chunk_mode pe w =
         Inr (self, w')))"
proof (intro conjI impI allI)
  fix e
  assume "Transformer_init l d_input d_model d_output q v h k N dropout chunk_mode pe w = Inl e"
  from init_Inl [OF this]
  show "(\<exists>w0. Encoder l d_model q v h k dropout chunk_mode w0 = Inl e) \<or>
      (\<exists>w0. Decoder l d_model q v h k dropout chunk_mode w0 = Inl e) \<or>
      (\<exists>w0. Linear l d_input d_model w0 = Inl e) \<or>
      (\<exists>w0. Linear l d_model d_output w0 = Inl e) \<or>
      (\<exists>w0. pe = Some ''original'' \<and> generate_original_PE l k d_model w0 = Inl e) \<or>
      (\<exists>w0. pe = Some ''regular'' \<and> generate_regular_PE l k d_model w0 = Inl e) \<or>
      (\<exists>name. pe = Some name \<and> name \<noteq> ''original'' \<and> name \<noteq> ''regular'' \<and>
         e = NameError (pe_message name [''original'', ''regular'']))"
    by (simp add: pe_functions_def)
next
  fix self w'
  assume i: "Transformer_init l d_input d_model d_output q v h k N dropout chunk_mode pe w =
               Inr (self, w')"
  from init_Inr [OF i] obtain w1 w2 where
    e: "build (Encoder l d_model q v h k dropout chunk_mode) (nat N) w = Inr (layers_encoding self, w1)"
    and d: "build (Decoder l d_model q v h k dropout chunk_mode) (nat N) w1 = Inr (layers_decoding self, w2)"
    by blast
  from build_Inr [OF e] show "length (layers_encoding self) = nat N"
    and "\<forall>x\<in>set (layers_encoding self).
           \<exists>w0 w1. Encoder l d_model q v h k dropout chunk_mode w0 = Inr (x, w1)"
    by simp_all
  from build_Inr [OF d] show "length (layers_decoding self) = nat N"
    and "\<forall>x\<in>set (layers_decoding self).
           \<exists>w0 w1. Decoder l d_model q v h k dropout chunk_mode w0 = Inr (x, w1)"
    by simp_all
next
  assume "layers_constructible l d_model q v h k dropout chunk_mode \<and>
    modules_constructible l d_input d_model d_output k \<and>
    pe \<in> {None, Some ''original'', Some ''regular''}"
  then show "\<exists>self w'. Transformer_init l d_input d_model d_output q v h k N dropout chunk_mode pe w =
               Inr (self, w')"
    by (intro init_succeeds) auto
qed

theorem init_validates_only_pe_witness:
  "Transformer_init lib0 0 0 0 (- 5) 7 0 (- 1) 2 (PyInt 9) PyNone None (0, 1) = Inr (m1, (4, 5)) \<and>
   length (layers_encoding m1) = 2 \<and> length (layers_decoding m1) = 2 \<and>
   (\<exists>w0 w1. Encoder lib0 0 (- 5) 7 0 (- 1) (PyInt 9) PyNone w0 = Inr (2, w1)) \<and>
   (\<exists>w0 w1. Decoder lib0 0 (- 5) 7 0 (- 1) (PyInt 9) PyNone w0 = Inr (4, w1)) \<and>
   layers_constructible lib0 0 (- 5) 7 0 (- 1) (PyInt 9) PyNone \<and>
   modules_constructible lib0 0 0 0 (- 1) \<and>
   (\<exists>self w'. Transformer_init lib0 0 0 0 (- 5) 7 0 (- 1) (- 3) (PyInt 9) PyNone (Some ''regular'')
       (0, 1) = Inr (self, w'))"
proof -
  have i: "Transformer_init lib0 0 0 0 (- 5) 7 0 (- 1) 2 (PyInt 9) PyNone None (0, 1) =
             Inr (m1, (4, 5))"
    by code_simp
  have a: "layers_constructible lib0 0 (- 5) 7 0 (- 1) (PyInt 9) PyNone"
    by (simp add: layers_constructible_def returns_def lib0_def)
  have b: "modules_constructible lib0 0 0 0 (- 1)"
    by (rule lib0_modules_constructible) simp_all
  from init_validates_only_pe
         [of lib0 0 0 0 "- 5" 7 0 "- 1" 2 "PyInt 9" PyNone None "(0, 1)"]
    init_validates_only_pe
         [of lib0 0 0 0 "- 5" 7 0 "- 1" "- 3" "PyInt 9" PyNone "Some ''regular''" "(0, 1)"]
    i a b
  show ?thesis by (simp add: m1_def)
qed

end
